theory Spec2Isabelle
  imports Main "HOL-Library.AList"
begin

section \<open>Text\<close>

text \<open>
  Python \<open>str\<close> values are modelled as \<open>string\<close>; a character stands for a code point
  below 256.  \<open>isspace\<close> lists the code points of that range that \<open>str.strip()\<close>
  removes: tab, line feed, vertical tab, form feed, carriage return, the four
  separators 28 to 31, space, next line (133) and no-break space (160).
\<close>

definition isspace :: "char \<Rightarrow> bool" where
  "isspace c = (of_char c \<in> set [9, 10, 11, 12, 13, 28, 29, 30, 31, 32, 133, 160 :: nat])"

definition strip :: "string \<Rightarrow> string" where
  "strip s = rev (dropWhile isspace (rev (dropWhile isspace s)))"

text \<open>\<open>sep.join(xs)\<close>.\<close>

fun join :: "string \<Rightarrow> string list \<Rightarrow> string" where
  "join sep [] = []"
| "join sep [x] = x"
| "join sep (x # y # ys) = x @ sep @ join sep (y # ys)"

text \<open>\<open>str(n)\<close> and \<open>'%0wd' % n\<close> for a non-negative integer.\<close>

definition digit :: "nat \<Rightarrow> char" where
  "digit n = ''0123456789'' ! (n mod 10)"

fun decimal :: "nat \<Rightarrow> string" where
  "decimal n = (if n < 10 then [digit n] else decimal (n div 10) @ [digit (n mod 10)])"

definition zpad :: "nat \<Rightarrow> nat \<Rightarrow> string" where
  "zpad w n = replicate (w - length (decimal n)) (CHR ''0'') @ decimal n"

section \<open>Exceptions\<close>

text \<open>
  The exceptions that the code can raise.  The model follows Python 3.11 or later with
  pandas 3; where a result depends on the version, the text at the definition says so.
\<close>

datatype error = KeyError | AttributeError | ValueError | TypeError | OSError | EmptyDataError

section \<open>Timestamps\<close>

text \<open>
  A naive \<open>datetime\<close>, as \<open>datetime.utcnow()\<close> returns it, with the fields Python keeps.
\<close>

record datetime =
  year :: nat
  month :: nat
  day :: nat
  hour :: nat
  minute :: nat
  second :: nat
  microsecond :: nat

text \<open>
  \<open>datetime.isoformat()\<close>: \<open>YYYY-MM-DDTHH:MM:SS\<close>, followed by \<open>.ffffff\<close> when the
  microsecond field is not zero.
\<close>

definition isoformat :: "datetime \<Rightarrow> string" where
  "isoformat dt =
     zpad 4 (year dt) @ ''-'' @ zpad 2 (month dt) @ ''-'' @ zpad 2 (day dt) @ ''T''
     @ zpad 2 (hour dt) @ '':'' @ zpad 2 (minute dt) @ '':'' @ zpad 2 (second dt)
     @ (if microsecond dt \<noteq> 0 then ''.'' @ zpad 6 (microsecond dt) else [])"

text \<open>
  The texts that every version of \<open>datetime.fromisoformat\<close> reads, and reads alike: the
  form \<open>YYYY-MM-DD[*HH[:MM[:SS[.fff[fff]]]]]\<close>, where \<open>*\<close> is any one character, with
  fields that the \<open>datetime\<close> constructor accepts.  It includes all that \<open>isoformat\<close>
  writes.  \<open>parse_isoformat\<close> reads this form.
\<close>

definition digit_val :: "char \<Rightarrow> nat option" where
  "digit_val c = (let n = (of_char c :: nat) in if 48 \<le> n \<and> n \<le> 57 then Some (n - 48) else None)"

fun to_nat_acc :: "nat \<Rightarrow> string \<Rightarrow> nat option" where
  "to_nat_acc a [] = Some a"
| "to_nat_acc a (c # cs) =
     (case digit_val c of None \<Rightarrow> None | Some v \<Rightarrow> to_nat_acc (10 * a + v) cs)"

definition to_nat :: "string \<Rightarrow> nat option" where
  "to_nat s = (if s = [] then None else to_nat_acc 0 s)"

definition is_leap :: "nat \<Rightarrow> bool" where
  "is_leap y = (y mod 4 = 0 \<and> (y mod 100 \<noteq> 0 \<or> y mod 400 = 0))"

definition DAYS_IN_MONTH :: "int list" where
  "DAYS_IN_MONTH = [-1, 31, 28, 31, 30, 31, 30, 31, 31, 30, 31, 30, 31]"

definition DAYS_BEFORE_MONTH :: "int list" where
  "DAYS_BEFORE_MONTH = [-1, 0, 31, 59, 90, 120, 151, 181, 212, 243, 273, 304, 334]"

definition days_in_month :: "nat \<Rightarrow> nat \<Rightarrow> int" where
  "days_in_month y m = (if m = 2 \<and> is_leap y then 29 else DAYS_IN_MONTH ! m)"

definition days_before_year :: "nat \<Rightarrow> int" where
  "days_before_year y =
     (let y1 = int y - 1 in y1 * 365 + y1 div 4 - y1 div 100 + y1 div 400)"

definition days_before_month :: "nat \<Rightarrow> nat \<Rightarrow> int" where
  "days_before_month y m = DAYS_BEFORE_MONTH ! m + (if m > 2 \<and> is_leap y then 1 else 0)"

text \<open>The fields a \<open>datetime\<close> object can hold.\<close>

definition valid_datetime :: "datetime \<Rightarrow> bool" where
  "valid_datetime dt =
     (1 \<le> year dt \<and> year dt \<le> 9999 \<and> 1 \<le> month dt \<and> month dt \<le> 12
      \<and> 1 \<le> day dt \<and> int (day dt) \<le> days_in_month (year dt) (month dt)
      \<and> hour dt < 24 \<and> minute dt < 60 \<and> second dt < 60 \<and> microsecond dt < 1000000)"

definition parse_isoformat_date :: "string \<Rightarrow> (nat \<times> nat \<times> nat) option" where
  "parse_isoformat_date s =
     (if length s = 10 \<and> s ! 4 = CHR ''-'' \<and> s ! 7 = CHR ''-''
      then case (to_nat (take 4 s), to_nat (take 2 (drop 5 s)), to_nat (drop 8 s)) of
             (Some y, Some m, Some d) \<Rightarrow> Some (y, m, d)
           | _ \<Rightarrow> None
      else None)"

definition parse_hh_mm_ss_ff :: "string \<Rightarrow> (nat \<times> nat \<times> nat \<times> nat) option" where
  "parse_hh_mm_ss_ff t =
     (let n = length t
      in if n \<notin> set [2, 5, 8, 12, 15] then None
         else if 5 \<le> n \<and> t ! 2 \<noteq> CHR '':'' then None
         else if 8 \<le> n \<and> t ! 5 \<noteq> CHR '':'' then None
         else if 12 \<le> n \<and> t ! 8 \<noteq> CHR ''.'' then None
         else case (to_nat (take 2 t),
                    if 5 \<le> n then to_nat (take 2 (drop 3 t)) else Some 0,
                    if 8 \<le> n then to_nat (take 2 (drop 6 t)) else Some 0,
                    if n = 12 then map_option (\<lambda>f. f * 1000) (to_nat (drop 9 t))
                    else if n = 15 then to_nat (drop 9 t) else Some 0) of
                (Some h, Some mi, Some sec, Some us) \<Rightarrow> Some (h, mi, sec, us)
              | _ \<Rightarrow> None)"

definition parse_isoformat :: "string \<Rightarrow> datetime option" where
  "parse_isoformat s =
     (case parse_isoformat_date (take 10 s) of
        None \<Rightarrow> None
      | Some (y, m, d) \<Rightarrow>
         (case (if drop 10 s = [] then Some (0, 0, 0, 0) else parse_hh_mm_ss_ff (drop 11 s)) of
            None \<Rightarrow> None
          | Some (h, mi, sec, us) \<Rightarrow>
             (let dt = \<lparr>year = y, month = m, day = d, hour = h, minute = mi, second = sec,
                        microsecond = us\<rparr>
              in if valid_datetime dt then Some dt else None)))"

text \<open>
  \<open>datetime.fromisoformat\<close>.  A text of the form above gives its \<open>datetime\<close>, a text of
  fewer than seven characters raises \<open>ValueError\<close> in every version.  What happens to any
  other text depends on the Python version (from 3.11 on further ISO 8601 forms are
  read, and a text with a UTC offset gives a \<open>datetime\<close> that cannot be subtracted from
  \<open>utcnow()\<close>): for these the model says nothing, the result is \<open>None\<close>.
\<close>

definition fromisoformat :: "string \<Rightarrow> (error + datetime) option" where
  "fromisoformat s =
     (if length s < 7 then Some (Inl ValueError)
      else case parse_isoformat s of None \<Rightarrow> None | Some dt \<Rightarrow> Some (Inr dt))"

text \<open>
  \<open>toordinal\<close>, the position on the microsecond time line, and the \<open>days\<close> field of the
  \<open>timedelta\<close> that \<open>a - b\<close> gives: the difference in whole days, rounded down.
\<close>

definition toordinal :: "datetime \<Rightarrow> int" where
  "toordinal dt = days_before_year (year dt) + days_before_month (year dt) (month dt) + int (day dt)"

definition day_seconds :: "datetime \<Rightarrow> int" where
  "day_seconds dt = int (second dt) + int (minute dt) * 60 + int (hour dt) * 3600"

definition delta_microseconds :: "datetime \<Rightarrow> datetime \<Rightarrow> int" where
  "delta_microseconds a b =
     ((toordinal a - toordinal b) * 86400 + (day_seconds a - day_seconds b)) * 1000000
     + (int (microsecond a) - int (microsecond b))"

definition delta_days :: "datetime \<Rightarrow> datetime \<Rightarrow> int" where
  "delta_days a b = delta_microseconds a b div (86400 * 1000000)"

section \<open>Tasks and the session\<close>

text \<open>
  A cell of the task table: a Python string, or the float \<open>nan\<close> that pandas puts where
  a value is missing.
\<close>

datatype cell = Str string | NaN

text \<open>One row of the table, and the dictionary \<open>create_task\<close> returns.\<close>

record task =
  task_id :: cell
  title :: cell
  description :: cell
  owner :: cell
  status :: cell
  created_at :: cell
  last_updated_at :: cell

text \<open>
  A \<open>DataFrame\<close> with the seven task columns and a \<open>RangeIndex\<close>: the list of its rows.
\<close>

type_synonym frame = "task list"

text \<open>
  What the page shows: \<open>st.error(m)\<close>, \<open>st.warning(m)\<close>, and \<open>st.error(f"{m}{exc}")\<close> for a
  caught exception.
\<close>

datatype ui_msg = Error string | Warning string | Failure string error

text \<open>
  A CSV file after tokenising: the fields of the header line and of each non-blank line
  after it, quoting removed.
\<close>

record csv_table =
  header :: "string list"
  records :: "string list list"

text \<open>
  The state the functions of \<open>task_manager.py\<close> work on.  DataFrames are mutable objects:
  \<open>objects\<close> is the store of the frames allocated so far, a reference is an index into it.
  \<open>tasks_df\<close> and \<open>inactivity_threshold_days\<close> are the two keys of \<open>st.session_state\<close>
  (\<open>None\<close>: key absent), \<open>files\<close> is the file system, paths with their CSV files, and \<open>shown\<close>
  collects what \<open>st.error\<close> and \<open>st.warning\<close> displayed.
\<close>

record session =
  objects :: "frame list"
  tasks_df :: "nat option"
  inactivity_threshold_days :: "int option"
  files :: "(string \<times> csv_table) list"
  shown :: "ui_msg list"

definition VALID_STATUSES :: "string list" where
  "VALID_STATUSES = [''Planned'', ''In Progress'', ''Blocked'', ''Completed'']"

definition DEFAULT_INACTIVITY_THRESHOLD_DAYS :: int where
  "DEFAULT_INACTIVITY_THRESHOLD_DAYS = 3"

definition new_session :: session where
  "new_session = \<lparr>objects = [], tasks_df = None, inactivity_threshold_days = None,
                   files = [], shown = []\<rparr>"

text \<open>Creating a DataFrame object: it gets the next free reference.\<close>

definition alloc :: "frame \<Rightarrow> session \<Rightarrow> nat \<times> session" where
  "alloc f s = (length (objects s), s\<lparr>objects := objects s @ [f]\<rparr>)"

definition st_error :: "string \<Rightarrow> session \<Rightarrow> session" where
  "st_error m s = s\<lparr>shown := shown s @ [Error m]\<rparr>"

definition st_warning :: "string \<Rightarrow> session \<Rightarrow> session" where
  "st_warning m s = s\<lparr>shown := shown s @ [Warning m]\<rparr>"

definition init_session_state :: "session \<Rightarrow> session" where
  "init_session_state s =
     (let s1 = (case tasks_df s of
                  None \<Rightarrow> (let (a, s') = alloc [] s in s'\<lparr>tasks_df := Some a\<rparr>)
                | Some _ \<Rightarrow> s)
      in case inactivity_threshold_days s1 of
           None \<Rightarrow> s1\<lparr>inactivity_threshold_days := Some DEFAULT_INACTIVITY_THRESHOLD_DAYS\<rparr>
         | Some _ \<Rightarrow> s1)"

text \<open>\<open>get_tasks_df\<close> returns a reference to a new object, the copy.\<close>

definition get_tasks_df :: "session \<Rightarrow> error + (nat \<times> session)" where
  "get_tasks_df s =
     (let s1 = init_session_state s
      in case tasks_df s1 of
           None \<Rightarrow> Inl KeyError
         | Some a \<Rightarrow> Inr (alloc (objects s1 ! a) s1))"

definition set_tasks_df :: "nat \<Rightarrow> session \<Rightarrow> session" where
  "set_tasks_df df s = s\<lparr>tasks_df := Some df\<rparr>"

text \<open>
  The table the session holds: what the reference under \<open>tasks_df\<close> points to, and the
  empty table while the key is absent (the first access creates it).
\<close>

definition stored_tasks :: "session \<Rightarrow> frame" where
  "stored_tasks s = (case tasks_df s of None \<Rightarrow> [] | Some a \<Rightarrow> objects s ! a)"

text \<open>References are never dangling.\<close>

definition wf_session :: "session \<Rightarrow> bool" where
  "wf_session s = (case tasks_df s of None \<Rightarrow> True | Some a \<Rightarrow> a < length (objects s))"

section \<open>Validation and creation\<close>

definition validate_task_fields :: "string \<Rightarrow> string \<Rightarrow> string \<Rightarrow> string option \<Rightarrow> string list" where
  "validate_task_fields title' owner' status' description' =
     (if title' = [] \<or> strip title' = [] then [''Title is required.''] else [])
     @ (if owner' = [] \<or> strip owner' = [] then [''Owner is required.''] else [])
     @ (if status' \<notin> set VALID_STATUSES
        then [''Status must be one of: '' @ join '', '' VALID_STATUSES] else [])
     @ (if description' = None then [''Description cannot be None.''] else [])"

text \<open>
  \<open>create_task\<close>; \<open>now\<close> is what \<open>datetime.utcnow()\<close> returns in the call and \<open>uid\<close> the
  text of the identifier \<open>uuid.uuid4()\<close> returns.
\<close>

definition create_task ::
  "datetime \<Rightarrow> string \<Rightarrow> string \<Rightarrow> string option \<Rightarrow> string \<Rightarrow> string \<Rightarrow> session
     \<Rightarrow> error + (task option \<times> session)" where
  "create_task now uid title' description' owner' status' s =
     (let s1 = init_session_state s;
          errors = validate_task_fields title' owner' status' description'
      in if errors \<noteq> [] then Inr (None, st_error (join [CHR 10] errors) s1)
         else case description' of
                None \<Rightarrow> Inl AttributeError
              | Some d \<Rightarrow>
                 (let t = \<lparr>task_id = Str uid, title = Str (strip title'),
                           description = Str (strip d), owner = Str (strip owner'),
                           status = Str status', created_at = Str (isoformat now),
                           last_updated_at = Str (isoformat now)\<rparr>
                  in case get_tasks_df s1 of
                       Inl e \<Rightarrow> Inl e
                     | Inr (df, s2) \<Rightarrow>
                        (let (df', s3) = alloc (objects s2 ! df @ [t]) s2
                         in Inr (Some t, set_tasks_df df' s3))))"

section \<open>Update\<close>

text \<open>The position of the first row that satisfies \<open>P\<close>: \<open>df.index[mask][0]\<close>.\<close>

fun first_index :: "('a \<Rightarrow> bool) \<Rightarrow> 'a list \<Rightarrow> nat option" where
  "first_index P [] = None"
| "first_index P (x # xs) = (if P x then Some 0 else map_option Suc (first_index P xs))"

text \<open>
  pandas keeps a type for every column.  In the tables of this model a column that has
  rows, all of them without value, has the type float64: \<open>read_csv\<close> gives it that type,
  and nothing else makes such a column.  Every other column holds a text and has the
  type object or str.
\<close>

definition holds_no_text :: "(task \<Rightarrow> cell) \<Rightarrow> frame \<Rightarrow> bool" where
  "holds_no_text col df = (df \<noteq> [] \<and> list_all (\<lambda>t. col t = NaN) df)"

text \<open>
  \<open>df.at[i, col] = v\<close> for a text \<open>v\<close> on the object \<open>df\<close>, with \<open>f\<close> the change of the row.
  The model follows pandas 3, which raises \<open>TypeError\<close> when a text is written into a
  column of type float64 (pandas 2 gave a warning and changed the type of the column).
\<close>

definition df_at_put ::
  "nat \<Rightarrow> nat \<Rightarrow> (task \<Rightarrow> cell) \<Rightarrow> (task \<Rightarrow> task) \<Rightarrow> session \<Rightarrow> error + session" where
  "df_at_put df i col f s =
     (if holds_no_text col (objects s ! df) then Inl TypeError
      else Inr (s\<lparr>objects := (objects s)[df := (objects s ! df)[i := f (objects s ! df ! i)]]\<rparr>))"


section \<open>Derived metrics\<close>

text \<open>
  \<open>now\<close> is what the call of \<open>datetime.utcnow()\<close> inside the function returns.  A cell
  without value makes \<open>fromisoformat\<close> raise \<open>TypeError\<close>.  The result is \<open>None\<close> where the
  model of \<open>fromisoformat\<close> says nothing.
\<close>

definition compute_task_age_days :: "datetime \<Rightarrow> cell \<Rightarrow> (error + int) option" where
  "compute_task_age_days now created_at_iso =
     (case created_at_iso of
        NaN \<Rightarrow> Some (Inl TypeError)
      | Str x \<Rightarrow> (case fromisoformat x of
                    None \<Rightarrow> None
                  | Some (Inl e) \<Rightarrow> Some (Inl e)
                  | Some (Inr created) \<Rightarrow> Some (Inr (delta_days now created))))"

definition compute_inactivity_days :: "datetime \<Rightarrow> cell \<Rightarrow> (error + int) option" where
  "compute_inactivity_days now last_updated_iso =
     (case last_updated_iso of
        NaN \<Rightarrow> Some (Inl TypeError)
      | Str x \<Rightarrow> (case fromisoformat x of
                    None \<Rightarrow> None
                  | Some (Inl e) \<Rightarrow> Some (Inl e)
                  | Some (Inr updated) \<Rightarrow> Some (Inr (delta_days now updated))))"

definition get_inactivity_threshold_days :: "session \<Rightarrow> error + (int \<times> session)" where
  "get_inactivity_threshold_days s =
     (let s1 = init_session_state s
      in case inactivity_threshold_days s1 of
           None \<Rightarrow> Inl KeyError
         | Some v \<Rightarrow> Inr (if v \<noteq> 0 then v else DEFAULT_INACTIVITY_THRESHOLD_DAYS, s1))"

definition set_inactivity_threshold_days :: "int \<Rightarrow> session \<Rightarrow> session" where
  "set_inactivity_threshold_days days s =
     (if days \<le> 0 then st_error ''Inactivity threshold must be a positive integer.'' s
      else s\<lparr>inactivity_threshold_days := Some days\<rparr>)"

text \<open>
  \<open>Series.apply(f)\<close> where \<open>f\<close> reads the clock: the elements are done in order, and
  \<open>clock k\<close> is what the \<open>k\<close>-th call of \<open>datetime.utcnow()\<close> returns (counted from 0 within
  one call of \<open>with_derived_metrics\<close>).  The first element that raises ends the pass.
\<close>

fun series_apply ::
  "(datetime \<Rightarrow> cell \<Rightarrow> (error + int) option) \<Rightarrow> (nat \<Rightarrow> datetime) \<Rightarrow> nat \<Rightarrow> cell list
     \<Rightarrow> (error + int list) option" where
  "series_apply f clock k [] = Some (Inr [])"
| "series_apply f clock k (c # cs) =
     (case f (clock k) c of
        None \<Rightarrow> None
      | Some (Inl e) \<Rightarrow> Some (Inl e)
      | Some (Inr v) \<Rightarrow> (case series_apply f clock (Suc k) cs of
                           None \<Rightarrow> None
                         | Some (Inl e) \<Rightarrow> Some (Inl e)
                         | Some (Inr vs) \<Rightarrow> Some (Inr (v # vs))))"

text \<open>A row of the table with the five derived columns.\<close>

record derived_task = task +
  age_days :: int
  inactivity_days :: int
  at_risk :: bool
  is_blocked :: bool
  is_long_running :: bool

definition derive_row :: "int \<Rightarrow> task \<Rightarrow> int \<times> int \<Rightarrow> derived_task" where
  "derive_row threshold t ai =
     \<lparr>task_id = task_id t, title = title t, description = description t, owner = owner t,
      status = status t, created_at = created_at t, last_updated_at = last_updated_at t,
      age_days = fst ai, inactivity_days = snd ai,
      at_risk = (snd ai \<ge> threshold),
      is_blocked = (status t = Str ''Blocked''),
      is_long_running = (status t \<noteq> Str ''Completed'' \<and> fst ai \<ge> threshold * 2)\<rparr>"

text \<open>
  \<open>with_derived_metrics\<close> reads the frame it is given and returns a new one, to which
  nothing else refers: both are passed by value.  For the empty frame the result is a
  copy without the derived columns, the empty list here.
\<close>

definition with_derived_metrics ::
  "(nat \<Rightarrow> datetime) \<Rightarrow> frame \<Rightarrow> session \<Rightarrow> (error + (derived_task list \<times> session)) option" where
  "with_derived_metrics clock df s =
     (if df = [] then Some (Inr ([], s))
      else case series_apply compute_task_age_days clock 0 (map created_at df) of
             None \<Rightarrow> None
           | Some (Inl e) \<Rightarrow> Some (Inl e)
           | Some (Inr ages) \<Rightarrow>
              (case series_apply compute_inactivity_days clock (length df)
                      (map last_updated_at df) of
                 None \<Rightarrow> None
               | Some (Inl e) \<Rightarrow> Some (Inl e)
               | Some (Inr inact) \<Rightarrow>
                  (case get_inactivity_threshold_days s of
                     Inl e \<Rightarrow> Some (Inl e)
                   | Inr (threshold, s1) \<Rightarrow>
                      Some (Inr (map2 (derive_row threshold) df (zip ages inact), s1)))))"


section \<open>Persistence\<close>

definition required_cols :: "string list" where
  "required_cols = [''task_id'', ''title'', ''description'', ''owner'', ''status'',
                    ''created_at'', ''last_updated_at'']"

text \<open>
  \<open>DataFrame.to_csv(path, index=False)\<close>: the column names, then one record per row; a
  missing value is written as the empty field.
\<close>

definition field_text :: "cell \<Rightarrow> string" where
  "field_text c = (case c of Str x \<Rightarrow> x | NaN \<Rightarrow> [])"

definition to_csv :: "frame \<Rightarrow> csv_table" where
  "to_csv df =
     \<lparr>header = required_cols,
      records = map (\<lambda>t. map field_text [task_id t, title t, description t, owner t, status t,
                                          created_at t, last_updated_at t]) df\<rparr>"

text \<open>
  \<open>pandas.read_csv(path)\<close> with its defaults.  A field whose text is one of the default
  missing-value markers is read as \<open>nan\<close>, and so is a field that a record shorter than
  the header lacks.
\<close>

definition na_values :: "string list" where
  "na_values = ['''', ''#N/A'', ''#N/A N/A'', ''#NA'', ''-1.#IND'', ''-1.#QNAN'', ''-NaN'', ''-nan'',
                ''1.#IND'', ''1.#QNAN'', ''<NA>'', ''N/A'', ''NA'', ''NULL'', ''NaN'', ''None'',
                ''n/a'', ''nan'', ''null'']"

definition read_field :: "string \<Rightarrow> cell" where
  "read_field x = (if x \<in> set na_values then NaN else Str x)"

text \<open>
  pandas reads a column as numbers or as truth values when every field of it that is
  not missing can be read so.  \<open>maybe_typed\<close> holds for every such field, and for some
  others: for a text of digits, signs, points, the letter e and blanks, for a text of
  three or more of the letters of \<open>infinity\<close> with signs, and for the six spellings of
  the truth values.  A column with a field for which it fails is a column of texts.
\<close>

definition number_char :: "char \<Rightarrow> bool" where
  "number_char c = (c \<in> set ''0123456789+-.eE'' \<or> isspace c)"

definition infinity_char :: "char \<Rightarrow> bool" where
  "infinity_char c = (c \<in> set ''infityINFITY+-'')"

definition maybe_typed :: "string \<Rightarrow> bool" where
  "maybe_typed x =
     (list_all number_char x \<or> (3 \<le> length x \<and> list_all infinity_char x)
      \<or> x \<in> set [''True'', ''TRUE'', ''true'', ''False'', ''FALSE'', ''false''])"

text \<open>The fields of column \<open>k\<close> that are present and not missing, and whether pandas may
  read the column as other than texts.\<close>

definition present_fields :: "nat \<Rightarrow> string list list \<Rightarrow> string list" where
  "present_fields k recs =
     filter (\<lambda>x. x \<notin> set na_values) (map (\<lambda>r. r ! k) (filter (\<lambda>r. k < length r) recs))"

definition maybe_typed_column :: "nat \<Rightarrow> string list list \<Rightarrow> bool" where
  "maybe_typed_column k recs =
     (present_fields k recs \<noteq> [] \<and> list_all maybe_typed (present_fields k recs))"

text \<open>A frame as \<open>read_csv\<close> returns it: any columns, each row with one cell per column.\<close>

record raw_frame =
  columns :: "string list"
  rows :: "cell list list"

text \<open>
  A file without header raises \<open>EmptyDataError\<close>.  Two kinds of files are outside the
  model, the result for them is \<open>None\<close>: a file with a record longer than the header
  (pandas takes leading fields as row labels, or raises), and a file with a column
  that may be read as numbers or truth values.  For every other file the result is
  the frame of texts and missing values.
\<close>

definition read_csv :: "csv_table \<Rightarrow> (error + raw_frame) option" where
  "read_csv tbl =
     (if header tbl = [] then Some (Inl EmptyDataError)
      else if list_ex (\<lambda>r. length r > length (header tbl)) (records tbl) then None
      else if list_ex (\<lambda>k. maybe_typed_column k (records tbl)) [0..<length (header tbl)] then None
      else Some (Inr \<lparr>columns = header tbl,
                      rows = map (\<lambda>r. map read_field r
                                        @ replicate (length (header tbl) - length r) NaN)
                               (records tbl)\<rparr>))"

text \<open>
  The cell of column \<open>col\<close> in a row, after \<open>df[col] = ""\<close> for a column the file lacks.
\<close>

definition column_cell :: "string list \<Rightarrow> string \<Rightarrow> cell list \<Rightarrow> cell" where
  "column_cell cols col r =
     (case first_index (\<lambda>c. c = col) cols of None \<Rightarrow> Str [] | Some k \<Rightarrow> r ! k)"

definition select_required :: "raw_frame \<Rightarrow> frame" where
  "select_required df =
     map (\<lambda>r. \<lparr>task_id = column_cell (columns df) ''task_id'' r,
                title = column_cell (columns df) ''title'' r,
                description = column_cell (columns df) ''description'' r,
                owner = column_cell (columns df) ''owner'' r,
                status = column_cell (columns df) ''status'' r,
                created_at = column_cell (columns df) ''created_at'' r,
                last_updated_at = column_cell (columns df) ''last_updated_at'' r\<rparr>) (rows df)"

text \<open>
  \<open>exc\<close> says whether creating the directory and writing the file raises, and what.
\<close>

definition save_tasks_to_csv :: "error option \<Rightarrow> string \<Rightarrow> session \<Rightarrow> error + (bool \<times> session)" where
  "save_tasks_to_csv exc path s =
     (case get_tasks_df s of
        Inl e \<Rightarrow> Inl e
      | Inr (df, s1) \<Rightarrow>
         (case exc of
            None \<Rightarrow> Inr (True, s1\<lparr>files := AList.update path (to_csv (objects s1 ! df)) (files s1)\<rparr>)
          | Some e \<Rightarrow> Inr (False, s1\<lparr>shown := shown s1 @ [Failure ''Failed to save tasks to CSV: '' e]\<rparr>)))"

text \<open>\<open>load_tasks_from_csv\<close>; the result is \<open>None\<close> for a file outside the model.\<close>

definition load_tasks_from_csv :: "string \<Rightarrow> session \<Rightarrow> (bool \<times> session) option" where
  "load_tasks_from_csv path s =
     (case map_of (files s) path of
        None \<Rightarrow> Some (False, st_warning ''CSV file not found.'' s)
      | Some tbl \<Rightarrow>
         (case read_csv tbl of
            None \<Rightarrow> None
          | Some (Inl e) \<Rightarrow>
             Some (False, s\<lparr>shown := shown s @ [Failure ''Failed to load tasks from CSV: '' e]\<rparr>)
          | Some (Inr raw) \<Rightarrow>
             (let (df, s1) = alloc (select_required raw) s
              in Some (True, set_tasks_df df s1))))"

section \<open>Demo data\<close>



section \<open>Analytics\<close>

definition count_where :: "('a \<Rightarrow> bool) \<Rightarrow> 'a list \<Rightarrow> nat" where
  "count_where P xs = length (filter P xs)"

text \<open>
  The dictionary \<open>compute_health\<close> returns.  \<open>value_counts().to_dict()\<close> maps every value
  of the column other than \<open>nan\<close> to the number of rows that hold it.
\<close>

record health =
  total :: nat
  blocked :: nat
  at_risk_count :: nat
  long_running :: nat
  by_status :: "cell \<Rightarrow> nat option"
  by_owner :: "cell \<Rightarrow> nat option"

definition value_counts :: "cell list \<Rightarrow> cell \<Rightarrow> nat option" where
  "value_counts col v = (if v = NaN \<or> v \<notin> set col then None else Some (count_list col v))"

definition compute_health ::
  "(nat \<Rightarrow> datetime) \<Rightarrow> frame \<Rightarrow> session \<Rightarrow> (error + (health \<times> session)) option" where
  "compute_health clock df s =
     (case with_derived_metrics clock df s of
        None \<Rightarrow> None
      | Some (Inl e) \<Rightarrow> Some (Inl e)
      | Some (Inr (d, s1)) \<Rightarrow>
         (let n = length d
          in Some (Inr (\<lparr>total = n,
                   blocked = (if n \<noteq> 0 then count_where is_blocked d else 0),
                   at_risk_count = (if n \<noteq> 0 then count_where at_risk d else 0),
                   long_running = (if n \<noteq> 0 then count_where is_long_running d else 0),
                   by_status = (if n \<noteq> 0 then value_counts (map status d) else (\<lambda>v. None)),
                   by_owner = (if n \<noteq> 0 then value_counts (map owner d) else (\<lambda>v. None))\<rparr>,
                  s1))))"

definition daily_summary ::
  "(nat \<Rightarrow> datetime) \<Rightarrow> frame \<Rightarrow> session \<Rightarrow> (error + (string \<times> session)) option" where
  "daily_summary clock df s =
     (case with_derived_metrics clock df s of
        None \<Rightarrow> None
      | Some (Inl e) \<Rightarrow> Some (Inl e)
      | Some (Inr (d, s1)) \<Rightarrow>
         (let total = length d;
              blocked = (if total \<noteq> 0 then count_where is_blocked d else 0);
              at_risk' = (if total \<noteq> 0 then count_where at_risk d else 0);
              completed_today =
                (if total \<noteq> 0
                 then count_where (\<lambda>r. status r = Str ''Completed'' \<and> inactivity_days r = 0) d
                 else 0)
          in Some (Inr (''Total tasks: '' @ decimal total @ [CHR 10]
                  @ ''Blocked: '' @ decimal blocked @ '', At-Risk: '' @ decimal at_risk' @ [CHR 10]
                  @ ''Completed today: '' @ decimal completed_today @ [CHR 10]
                  @ ''Owners active: ''
                  @ decimal (if total \<noteq> 0 then length (remdups (map owner d)) else 0),
                  s1))))"

section \<open>Invariants and auxiliary notions\<close>

text \<open>
  The timestamp of a cell that holds a text of the form every \<open>fromisoformat\<close> reads.
\<close>

definition cell_datetime :: "cell \<Rightarrow> datetime option" where
  "cell_datetime c = (case c of Str x \<Rightarrow> parse_isoformat x | NaN \<Rightarrow> None)"

text \<open>
  For the proofs about \<open>update_task\<close>: \<open>x\<close> has the objects of \<open>s\<close> unchanged, one more object
  after them, and the same reference under \<open>tasks_df\<close>.
\<close>

definition extends_by_copy :: "session \<Rightarrow> session \<Rightarrow> bool" where
  "extends_by_copy s x =
     (tasks_df x = tasks_df s \<and> length (objects x) = Suc (length (objects s))
      \<and> take (length (objects s)) (objects x) = objects s)"








section \<open>Example values\<close>

definition noon :: datetime where
  "noon = \<lparr>year = 2024, month = 3, day = 1, hour = 12, minute = 0, second = 0, microsecond = 0\<rparr>"

definition example_task :: "string \<Rightarrow> string \<Rightarrow> string \<Rightarrow> string \<Rightarrow> string \<Rightarrow> task" where
  "example_task i ow st c u =
     \<lparr>task_id = Str i, title = Str ''t'', description = Str ''d'', owner = Str ow,
      status = Str st, created_at = Str c, last_updated_at = Str u\<rparr>"

definition df3 :: frame where
  "df3 = [example_task ''a'' ''ann'' ''In Progress'' ''2024-02-20T08:00:00'' ''2024-02-27T12:00:00'',
          example_task ''b'' ''bob'' ''Blocked'' ''2024-02-20T08:00:00'' ''2024-02-27T12:00:00.000001'',
          example_task ''c'' ''ann'' ''Completed'' ''2024-03-01T08:00:00'' ''2024-03-01T09:30:00'']"

definition one_task_session :: session where
  "one_task_session =
     \<lparr>objects = [[example_task ''a'' ''ann'' ''Planned'' ''2024-02-20T08:00:00'' ''2024-02-27T12:00:00'']],
      tasks_df = Some 0, inactivity_threshold_days = Some 3, files = [], shown = []\<rparr>"

definition before_noon :: datetime where
  "before_noon = \<lparr>year = 2024, month = 3, day = 1, hour = 11, minute = 59, second = 59,
                   microsecond = 999999\<rparr>"

text \<open>A clock that passes noon between the first and the second reading.\<close>

definition passing_clock :: "nat \<Rightarrow> datetime" where
  "passing_clock k = (if k = 0 then before_noon else noon)"

definition steady_clock :: "nat \<Rightarrow> datetime" where
  "steady_clock k = noon"

definition twin_tasks :: frame where
  "twin_tasks = [example_task ''a'' ''ann'' ''Planned'' ''2024-02-29T12:00:00'' ''2024-02-29T12:00:00'',
                 example_task ''b'' ''bob'' ''Planned'' ''2024-02-29T12:00:00'' ''2024-02-29T12:00:00'']"



text \<open>The task that \<open>create_task("t", "", "o", "Planned")\<close> makes at noon.\<close>

definition blank_description_task :: task where
  "blank_description_task =
     \<lparr>task_id = Str ''u1'', title = Str ''t'', description = Str '''', owner = Str ''o'',
      status = Str ''Planned'', created_at = Str ''2024-03-01T12:00:00'',
      last_updated_at = Str ''2024-03-01T12:00:00''\<rparr>"








text \<open>
  A CSV file with the seven column names and the one record \<open>a,t,d\<close>, the task that
  \<open>read_csv\<close> makes of it, the session after \<open>load_tasks_from_csv\<close>, and that session with
  the copy that \<open>update_task\<close> takes.
\<close>

definition short_record_file :: csv_table where
  "short_record_file = \<lparr>header = required_cols, records = [[''a'', ''t'', ''d'']]\<rparr>"

definition short_record_file_session :: session where
  "short_record_file_session =
     \<lparr>objects = [], tasks_df = None, inactivity_threshold_days = None,
      files = [(''data/tasks.csv'', short_record_file)], shown = []\<rparr>"

definition short_record_task :: task where
  "short_record_task =
     \<lparr>task_id = Str ''a'', title = Str ''t'', description = Str ''d'', owner = NaN, status = NaN,
      created_at = NaN, last_updated_at = NaN\<rparr>"

definition short_record_session :: session where
  "short_record_session =
     \<lparr>objects = [[short_record_task]], tasks_df = Some 0, inactivity_threshold_days = None,
      files = [(''data/tasks.csv'', short_record_file)], shown = []\<rparr>"


text \<open>
  A CSV file without the two timestamp columns and with one record, the task that the
  load makes of it, and the session after \<open>load_tasks_from_csv\<close>.
\<close>

definition no_stamps_file :: csv_table where
  "no_stamps_file =
     \<lparr>header = [''task_id'', ''title'', ''description'', ''owner'', ''status''],
      records = [[''a'', ''t'', ''d'', ''bob'', ''Planned'']]\<rparr>"

definition no_stamps_file_session :: session where
  "no_stamps_file_session =
     \<lparr>objects = [], tasks_df = None, inactivity_threshold_days = None,
      files = [(''data/tasks.csv'', no_stamps_file)], shown = []\<rparr>"

definition no_stamps_task :: task where
  "no_stamps_task =
     \<lparr>task_id = Str ''a'', title = Str ''t'', description = Str ''d'', owner = Str ''bob'',
      status = Str ''Planned'', created_at = Str [], last_updated_at = Str []\<rparr>"

definition no_stamps_session :: session where
  "no_stamps_session =
     \<lparr>objects = [[no_stamps_task]], tasks_df = Some 0, inactivity_threshold_days = None,
      files = [(''data/tasks.csv'', no_stamps_file)], shown = []\<rparr>"







section \<open>Properties\<close>

subsection \<open>The session and its table\<close>

lemma stored_init: "stored_tasks (init_session_state s) = stored_tasks s"
  by (simp add: init_session_state_def stored_tasks_def alloc_def Let_def split: option.splits)

lemma wf_init: "wf_session s \<Longrightarrow> wf_session (init_session_state s)"
  by (simp add: init_session_state_def wf_session_def alloc_def Let_def split: option.splits)


lemma get_tasks_df_eq:
  "wf_session s \<Longrightarrow>
   \<exists>s1. s1 = init_session_state s \<and>
     get_tasks_df s = Inr (length (objects s1), s1\<lparr>objects := objects s1 @ [stored_tasks s]\<rparr>)"
  by (auto simp: get_tasks_df_def Let_def alloc_def init_session_state_def stored_tasks_def
        wf_session_def nth_append split: option.splits)

lemma strip_examples:
  "strip '' Write report '' = ''Write report''" "strip ''ann'' = ''ann''" "strip [] = []"
  "strip ''t'' = ''t''" "strip ''o'' = ''o''" "strip ''owner'' = ''owner''"
  by (simp_all add: strip_def isspace_def)

lemma new_session_facts:
  "wf_session new_session" "stored_tasks new_session = []"
  by (simp_all add: wf_session_def new_session_def stored_tasks_def)


subsection \<open>Creating a task\<close>

lemma init_initialised:
  "init_session_state \<lparr>objects = os, tasks_df = Some a, inactivity_threshold_days = Some t,
                       files = fs, shown = sh\<rparr>
   = \<lparr>objects = os, tasks_df = Some a, inactivity_threshold_days = Some t, files = fs, shown = sh\<rparr>"
  by (simp add: init_session_state_def)

lemma init_new_session:
  "init_session_state new_session
   = \<lparr>objects = [[]], tasks_df = Some 0, inactivity_threshold_days = Some 3, files = [], shown = []\<rparr>"
  by (simp add: init_session_state_def new_session_def alloc_def DEFAULT_INACTIVITY_THRESHOLD_DAYS_def)

lemma isoformat_noon: "isoformat noon = ''2024-03-01T12:00:00''"
  by (simp add: isoformat_def noon_def zpad_def digit_def)







text \<open>
  C4.  \<open>create_task\<close> with an empty title, an empty owner or a status outside the
  enumeration returns no task; it shows the validation errors, which are not empty,
  and the table is what it was, with as many rows.
\<close>

theorem create_task_rejects:
  assumes "title' = [] \<or> owner' = [] \<or> status' \<notin> set VALID_STATUSES"
  shows "\<exists>s'. create_task now uid title' description' owner' status' s = Inr (None, s')
           \<and> shown s' = shown s
                @ [Error (join [CHR 10] (validate_task_fields title' owner' status' description'))]
           \<and> validate_task_fields title' owner' status' description' \<noteq> []
           \<and> stored_tasks s' = stored_tasks s
           \<and> length (stored_tasks s') = length (stored_tasks s)"
proof -
  have "validate_task_fields title' owner' status' description' \<noteq> []"
    using assms by (auto simp: validate_task_fields_def)
  then show ?thesis
    by (simp add: create_task_def Let_def st_error_def stored_tasks_def init_session_state_def
          alloc_def split: option.splits)
qed

theorem create_task_rejects_witness:
  "(\<exists>s'. create_task noon ''u9'' '''' (Some ''d'') ''owner'' ''Planned'' new_session = Inr (None, s')
         \<and> shown s' = [Error ''Title is required.''] \<and> stored_tasks s' = [])
   \<and> (\<exists>s'. create_task noon ''u9'' ''t'' (Some ''d'') '''' ''Planned'' new_session = Inr (None, s')
         \<and> shown s' = [Error ''Owner is required.''] \<and> stored_tasks s' = [])
   \<and> (\<exists>s'. create_task noon ''u9'' ''t'' (Some ''d'') ''o'' ''Unknown'' new_session = Inr (None, s')
         \<and> shown s' = [Error ''Status must be one of: Planned, In Progress, Blocked, Completed'']
         \<and> stored_tasks s' = [])"
proof -
  have v1: "validate_task_fields '''' ''owner'' ''Planned'' (Some ''d'') = [''Title is required.'']"
    by (simp add: validate_task_fields_def strip_examples VALID_STATUSES_def)
  have v2: "validate_task_fields ''t'' '''' ''Planned'' (Some ''d'') = [''Owner is required.'']"
    by (simp add: validate_task_fields_def strip_examples VALID_STATUSES_def)
  have v3: "validate_task_fields ''t'' ''o'' ''Unknown'' (Some ''d'')
            = [''Status must be one of: Planned, In Progress, Blocked, Completed'']"
    by (simp add: validate_task_fields_def strip_examples VALID_STATUSES_def)
  have s0: "shown new_session = []" by (simp add: new_session_def)
  have u: "''Unknown'' \<notin> set VALID_STATUSES" by (simp add: VALID_STATUSES_def)
  from create_task_rejects [of "''''" "''owner''" "''Planned''" noon "''u9''" "Some ''d''" new_session]
  have a: "\<exists>s'. create_task noon ''u9'' '''' (Some ''d'') ''owner'' ''Planned'' new_session = Inr (None, s')
         \<and> shown s' = [Error ''Title is required.''] \<and> stored_tasks s' = []"
    by (simp add: v1 s0 new_session_facts)
  from create_task_rejects [of "''t''" "''''" "''Planned''" noon "''u9''" "Some ''d''" new_session]
  have b: "\<exists>s'. create_task noon ''u9'' ''t'' (Some ''d'') '''' ''Planned'' new_session = Inr (None, s')
         \<and> shown s' = [Error ''Owner is required.''] \<and> stored_tasks s' = []"
    by (simp add: v2 s0 new_session_facts)
  from create_task_rejects [of "''t''" "''o''" "''Unknown''" noon "''u9''" "Some ''d''" new_session] u
  have c: "\<exists>s'. create_task noon ''u9'' ''t'' (Some ''d'') ''o'' ''Unknown'' new_session = Inr (None, s')
         \<and> shown s' = [Error ''Status must be one of: Planned, In Progress, Blocked, Completed'']
         \<and> stored_tasks s' = []"
    by (simp add: v3 s0 new_session_facts)
  from a b c show ?thesis by blast
qed


subsection \<open>Derived metrics\<close>

lemma threshold_total:
  "\<exists>thr. get_inactivity_threshold_days s = Inr (thr, init_session_state s)"
  by (simp add: get_inactivity_threshold_days_def Let_def init_session_state_def alloc_def
        split: option.splits)

lemma derive_row_sel:
  "inactivity_days (derive_row thr t ai) = snd ai"
  "age_days (derive_row thr t ai) = fst ai"
  "at_risk (derive_row thr t ai) = (thr \<le> snd ai)"
  "is_blocked (derive_row thr t ai) = (status t = Str ''Blocked'')"
  "is_long_running (derive_row thr t ai) = (status t \<noteq> Str ''Completed'' \<and> thr * 2 \<le> fst ai)"
  "status (derive_row thr t ai) = status t"
  "owner (derive_row thr t ai) = owner t"
  by (simp_all add: derive_row_def)

lemma with_derived_metrics_rows:
  assumes "with_derived_metrics clock df s = Some (Inr (d, s'))" and "df \<noteq> []"
  shows "\<exists>thr ages inact.
           get_inactivity_threshold_days s = Inr (thr, s')
           \<and> series_apply compute_task_age_days clock 0 (map created_at df) = Some (Inr ages)
           \<and> series_apply compute_inactivity_days clock (length df) (map last_updated_at df)
               = Some (Inr inact)
           \<and> d = map2 (derive_row thr) df (zip ages inact)"
  using assms by (auto simp: with_derived_metrics_def split: sum.splits option.splits)

text \<open>
  C5.  In the output of \<open>with_derived_metrics\<close> every row has \<open>at_risk\<close> true exactly when
  its \<open>inactivity_days\<close> is at least the threshold that \<open>get_inactivity_threshold_days\<close>
  returns for the session; at the threshold the flag is true, one day below it is false.
\<close>

theorem at_risk_iff_threshold:
  assumes "with_derived_metrics clock df s = Some (Inr (d, s'))"
  shows "\<exists>thr s1. get_inactivity_threshold_days s = Inr (thr, s1)
           \<and> (\<forall>r \<in> set d. (at_risk r \<longleftrightarrow> inactivity_days r \<ge> thr)
                  \<and> (inactivity_days r = thr \<longrightarrow> at_risk r)
                  \<and> (inactivity_days r = thr - 1 \<longrightarrow> \<not> at_risk r))"
proof (cases "df = []")
  case True
  with assms have "d = []" by (simp add: with_derived_metrics_def)
  with threshold_total [of s] show ?thesis by auto
next
  case False
  from with_derived_metrics_rows [OF assms False] obtain thr ages inact where
    t: "get_inactivity_threshold_days s = Inr (thr, s')"
    and d: "d = map2 (derive_row thr) df (zip ages inact)" by blast
  have "\<forall>r \<in> set d. (at_risk r \<longleftrightarrow> inactivity_days r \<ge> thr)"
    unfolding d by (auto simp: derive_row_sel)
  then have "\<forall>r \<in> set d. (at_risk r \<longleftrightarrow> inactivity_days r \<ge> thr)
                  \<and> (inactivity_days r = thr \<longrightarrow> at_risk r)
                  \<and> (inactivity_days r = thr - 1 \<longrightarrow> \<not> at_risk r)"
    by auto
  with t show ?thesis by blast
qed

lemmas parse_defs = fromisoformat_def parse_isoformat_def parse_isoformat_date_def
  parse_hh_mm_ss_ff_def to_nat_def
  digit_val_def valid_datetime_def days_in_month_def DAYS_IN_MONTH_def is_leap_def Let_def

lemmas delta_defs = delta_days_def delta_microseconds_def toordinal_def day_seconds_def
  days_before_year_def days_before_month_def DAYS_BEFORE_MONTH_def is_leap_def Let_def

lemma age_examples:
  "compute_task_age_days noon (Str ''2024-02-20T08:00:00'') = Some (Inr 10)"
  "compute_task_age_days noon (Str ''2024-03-01T08:00:00'') = Some (Inr 0)"
  by (simp_all add: compute_task_age_days_def parse_defs delta_defs noon_def)

lemma inactivity_examples:
  "compute_inactivity_days noon (Str ''2024-02-27T12:00:00'') = Some (Inr 3)"
  "compute_inactivity_days noon (Str ''2024-02-27T12:00:00.000001'') = Some (Inr 2)"
  "compute_inactivity_days noon (Str ''2024-03-01T09:30:00'') = Some (Inr 0)"
  by (simp_all add: compute_inactivity_days_def parse_defs delta_defs noon_def)

lemma new_session_threshold:
  "get_inactivity_threshold_days new_session = Inr (3, init_session_state new_session)"
  by (simp add: get_inactivity_threshold_days_def Let_def init_session_state_def new_session_def
        alloc_def DEFAULT_INACTIVITY_THRESHOLD_DAYS_def)

lemma df3_derived:
  "with_derived_metrics (\<lambda>k. noon) df3 new_session
   = Some (Inr (map2 (derive_row 3) df3 [(10, 3), (10, 2), (0, 0)], init_session_state new_session))"
  by (simp add: with_derived_metrics_def df3_def example_task_def age_examples inactivity_examples
        new_session_threshold)

theorem at_risk_iff_threshold_witness:
  "with_derived_metrics (\<lambda>k. noon) df3 new_session
     = Some (Inr (map2 (derive_row 3) df3 [(10, 3), (10, 2), (0, 0)], init_session_state new_session))
   \<and> get_inactivity_threshold_days new_session = Inr (3, init_session_state new_session)
   \<and> map inactivity_days (map2 (derive_row 3) df3 [(10, 3), (10, 2), (0, 0)]) = [3, 2, 0]
   \<and> map at_risk (map2 (derive_row 3) df3 [(10, 3), (10, 2), (0, 0)]) = [True, False, False]"
proof -
  from at_risk_iff_threshold [OF df3_derived] new_session_threshold
  have "\<forall>r \<in> set (map2 (derive_row 3) df3 [(10, 3), (10, 2), (0, 0)]).
          at_risk r \<longleftrightarrow> inactivity_days r \<ge> 3"
    by simp
  then have "map at_risk (map2 (derive_row 3) df3 [(10, 3), (10, 2), (0, 0)]) = [True, False, False]"
    by (simp add: df3_def derive_row_sel)
  moreover have "map inactivity_days (map2 (derive_row 3) df3 [(10, 3), (10, 2), (0, 0)]) = [3, 2, 0]"
    by (simp add: df3_def derive_row_sel)
  ultimately show ?thesis using df3_derived new_session_threshold by simp
qed


subsection \<open>Updating a task\<close>


lemma extends_by_copy_start:
  "extends_by_copy s0 (s0\<lparr>objects := objects s0 @ [f]\<rparr>)"
  by (simp add: extends_by_copy_def)

lemma extends_by_copy_put:
  "extends_by_copy s0 x \<Longrightarrow> df_at_put (length (objects s0)) i col f x = Inr y
   \<Longrightarrow> extends_by_copy s0 y"
  by (auto simp: extends_by_copy_def df_at_put_def split: if_splits)

lemma extends_by_copy_error:
  "extends_by_copy s0 x \<Longrightarrow> extends_by_copy s0 (st_error m x)"
  "extends_by_copy s0 x \<Longrightarrow> extends_by_copy s0 (st_warning m x)"
  by (simp_all add: extends_by_copy_def st_error_def st_warning_def)





lemma init_objects_length: "length (objects s) \<le> length (objects (init_session_state s))"
  by (simp add: init_session_state_def alloc_def Let_def split: option.splits)







lemma short_record_load:
  "load_tasks_from_csv ''data/tasks.csv'' short_record_file_session = Some (True, short_record_session)"
proof -
  have u: "[0..<7] = [0, 1, 2, 3, 4, 5, 6]" by (simp add: upt_rec)
  have r: "read_csv short_record_file
           = Some (Inr \<lparr>columns = required_cols,
                         rows = [[Str ''a'', Str ''t'', Str ''d'', NaN, NaN, NaN, NaN]]\<rparr>)"
    by (simp add: read_csv_def short_record_file_def required_cols_def u maybe_typed_column_def
          present_fields_def na_values_def maybe_typed_def number_char_def infinity_char_def
          isspace_def read_field_def)
  have sel: "select_required \<lparr>columns = required_cols,
                         rows = [[Str ''a'', Str ''t'', Str ''d'', NaN, NaN, NaN, NaN]]\<rparr>
             = [short_record_task]"
    by (simp add: select_required_def column_cell_def required_cols_def short_record_task_def)
  show ?thesis
    by (simp add: load_tasks_from_csv_def short_record_file_session_def r sel alloc_def
          set_tasks_df_def short_record_session_def)
qed

lemma short_record_session_facts:
  "wf_session short_record_session" "stored_tasks short_record_session = [short_record_task]"
  "init_session_state short_record_session
   = short_record_session\<lparr>inactivity_threshold_days := Some 3\<rparr>"
  by (simp_all add: wf_session_def short_record_session_def stored_tasks_def init_session_state_def
        DEFAULT_INACTIVITY_THRESHOLD_DAYS_def)




lemma one_task_session_facts:
  "wf_session one_task_session"
  "stored_tasks one_task_session
   = [example_task ''a'' ''ann'' ''Planned'' ''2024-02-20T08:00:00'' ''2024-02-27T12:00:00'']"
  "init_session_state one_task_session = one_task_session"
  by (simp_all add: wf_session_def one_task_session_def stored_tasks_def init_session_state_def)








subsection \<open>Reading the table\<close>

lemma with_derived_metrics_stored:
  "with_derived_metrics clock df s = Some (Inr (d, s')) \<Longrightarrow> stored_tasks s' = stored_tasks s"
  by (auto simp: with_derived_metrics_def get_inactivity_threshold_days_def Let_def stored_init
        split: if_splits sum.splits option.splits)

text \<open>
  C9.  \<open>get_tasks_df\<close> returns a reference to a new object that holds the rows of the
  session's table; the session does not refer to it, so whatever is written into that
  object afterwards, the table of the session stays what it was.  The reading and
  reporting operations (\<open>get_tasks_df\<close>, the threshold getter and setter,
  \<open>with_derived_metrics\<close>, \<open>compute_health\<close>, \<open>daily_summary\<close>, \<open>save_tasks_to_csv\<close>) leave
  the table as it was.
\<close>

theorem get_tasks_df_copy:
  assumes "wf_session s"
  shows "(\<exists>b s'. get_tasks_df s = Inr (b, s')
            \<and> objects s' ! b = stored_tasks s
            \<and> length (objects s) \<le> b
            \<and> tasks_df s' \<noteq> Some b
            \<and> stored_tasks s' = stored_tasks s
            \<and> (\<forall>fr. stored_tasks (s'\<lparr>objects := (objects s')[b := fr]\<rparr>) = stored_tasks s)
            \<and> (\<forall>i col f y. df_at_put b i col f s' = Inr y \<longrightarrow> stored_tasks y = stored_tasks s))
         \<and> (\<forall>thr s'. get_inactivity_threshold_days s = Inr (thr, s')
               \<longrightarrow> stored_tasks s' = stored_tasks s)
         \<and> stored_tasks (set_inactivity_threshold_days days s) = stored_tasks s
         \<and> (\<forall>clock df d s'. with_derived_metrics clock df s = Some (Inr (d, s'))
               \<longrightarrow> stored_tasks s' = stored_tasks s)
         \<and> (\<forall>clock df h s'. compute_health clock df s = Some (Inr (h, s'))
               \<longrightarrow> stored_tasks s' = stored_tasks s)
         \<and> (\<forall>clock df txt s'. daily_summary clock df s = Some (Inr (txt, s'))
               \<longrightarrow> stored_tasks s' = stored_tasks s)
         \<and> (\<forall>exc path ok s'. save_tasks_to_csv exc path s = Inr (ok, s')
               \<longrightarrow> stored_tasks s' = stored_tasks s)"
proof -
  let ?s1 = "init_session_state s"
  let ?b = "length (objects ?s1)"
  let ?s' = "?s1\<lparr>objects := objects ?s1 @ [stored_tasks s]\<rparr>"
  from get_tasks_df_eq [OF assms]
  have g: "get_tasks_df s = Inr (?b, ?s')" by simp
  from wf_init [OF assms] have w: "wf_session ?s1" .
  have r: "\<And>fr. stored_tasks (?s1\<lparr>objects := objects ?s1 @ [fr]\<rparr>) = stored_tasks s"
    using w stored_init [of s]
    by (auto simp: stored_tasks_def wf_session_def nth_append split: option.splits)
  have c1: "objects ?s' ! ?b = stored_tasks s" by simp
  have c2: "length (objects s) \<le> ?b" by (rule init_objects_length)
  have c3: "tasks_df ?s' \<noteq> Some ?b" using w by (auto simp: wf_session_def split: option.splits)
  have c4: "stored_tasks ?s' = stored_tasks s" by (rule r)
  have c5: "\<forall>fr. stored_tasks (?s'\<lparr>objects := (objects ?s')[?b := fr]\<rparr>) = stored_tasks s"
    using r by simp
  have c6: "\<forall>i col f y. df_at_put ?b i col f ?s' = Inr y \<longrightarrow> stored_tasks y = stored_tasks s"
    using r by (auto simp: df_at_put_def split: if_splits)
  have a: "\<exists>b s'. get_tasks_df s = Inr (b, s')
            \<and> objects s' ! b = stored_tasks s
            \<and> length (objects s) \<le> b
            \<and> tasks_df s' \<noteq> Some b
            \<and> stored_tasks s' = stored_tasks s
            \<and> (\<forall>fr. stored_tasks (s'\<lparr>objects := (objects s')[b := fr]\<rparr>) = stored_tasks s)
            \<and> (\<forall>i col f y. df_at_put b i col f s' = Inr y \<longrightarrow> stored_tasks y = stored_tasks s)"
    using g c1 c2 c3 c4 c5 c6 by blast
  have b: "\<forall>thr s'. get_inactivity_threshold_days s = Inr (thr, s') \<longrightarrow> stored_tasks s' = stored_tasks s"
    by (auto simp: get_inactivity_threshold_days_def Let_def stored_init split: option.splits)
  have c: "stored_tasks (set_inactivity_threshold_days days s) = stored_tasks s"
    by (simp add: set_inactivity_threshold_days_def st_error_def stored_tasks_def split: option.splits)
  have d: "\<forall>clock df d s'. with_derived_metrics clock df s = Some (Inr (d, s'))
               \<longrightarrow> stored_tasks s' = stored_tasks s"
    using with_derived_metrics_stored by blast
  have e: "\<forall>clock df h s'. compute_health clock df s = Some (Inr (h, s')) \<longrightarrow> stored_tasks s' = stored_tasks s"
    using with_derived_metrics_stored
    by (fastforce simp: compute_health_def Let_def split: sum.splits option.splits)
  have f: "\<forall>clock df txt s'. daily_summary clock df s = Some (Inr (txt, s')) \<longrightarrow> stored_tasks s' = stored_tasks s"
    using with_derived_metrics_stored
    by (fastforce simp: daily_summary_def Let_def split: sum.splits option.splits)
  have h: "\<forall>exc path ok s'. save_tasks_to_csv exc path s = Inr (ok, s') \<longrightarrow> stored_tasks s' = stored_tasks s"
    using c4 by (auto simp: save_tasks_to_csv_def g stored_tasks_def split: option.splits)
  from a b c d e f h show ?thesis by blast
qed

lemma one_task_session_threshold:
  "get_inactivity_threshold_days one_task_session = Inr (3, one_task_session)"
  by (simp add: get_inactivity_threshold_days_def one_task_session_facts)
     (simp add: one_task_session_def)

lemma df3_derived_one:
  "with_derived_metrics (\<lambda>k. noon) df3 one_task_session
   = Some (Inr (map2 (derive_row 3) df3 [(10, 3), (10, 2), (0, 0)], one_task_session))"
  by (simp add: with_derived_metrics_def df3_def example_task_def age_examples inactivity_examples
        one_task_session_threshold)

theorem get_tasks_df_copy_witness:
  "wf_session one_task_session
   \<and> (\<exists>s'. get_tasks_df one_task_session = Inr (1, s')
          \<and> objects s' ! 1 = stored_tasks one_task_session
          \<and> (\<exists>y. df_at_put 1 0 title (\<lambda>r. r\<lparr>title := Str ''changed''\<rparr>) s' = Inr y
                 \<and> objects y ! 1 \<noteq> stored_tasks one_task_session
                 \<and> stored_tasks y = stored_tasks one_task_session))
   \<and> (\<exists>thr s'. get_inactivity_threshold_days one_task_session = Inr (thr, s')
          \<and> stored_tasks s' = stored_tasks one_task_session)
   \<and> (\<exists>d s'. with_derived_metrics (\<lambda>k. noon) df3 one_task_session = Some (Inr (d, s'))
          \<and> stored_tasks s' = stored_tasks one_task_session)
   \<and> (\<exists>h s'. compute_health (\<lambda>k. noon) df3 one_task_session = Some (Inr (h, s'))
          \<and> stored_tasks s' = stored_tasks one_task_session)
   \<and> (\<exists>txt s'. daily_summary (\<lambda>k. noon) df3 one_task_session = Some (Inr (txt, s'))
          \<and> stored_tasks s' = stored_tasks one_task_session)
   \<and> (\<exists>ok s'. save_tasks_to_csv None ''data/tasks.csv'' one_task_session = Inr (ok, s')
          \<and> stored_tasks s' = stored_tasks one_task_session)"
proof -
  have h1: "wf_session one_task_session" by (rule one_task_session_facts)
  note T = get_tasks_df_copy [OF h1, of 5]
  note T1 = T [THEN conjunct1]
  note T2 = T [THEN conjunct2, THEN conjunct1, rule_format]
  note T4 = T [THEN conjunct2, THEN conjunct2, THEN conjunct2, THEN conjunct1, rule_format]
  note T5 = T [THEN conjunct2, THEN conjunct2, THEN conjunct2, THEN conjunct2, THEN conjunct1,
               rule_format]
  note T6 = T [THEN conjunct2, THEN conjunct2, THEN conjunct2, THEN conjunct2, THEN conjunct2,
               THEN conjunct1, rule_format]
  note T7 = T [THEN conjunct2, THEN conjunct2, THEN conjunct2, THEN conjunct2, THEN conjunct2,
               THEN conjunct2, rule_format]
  let ?s' = "one_task_session\<lparr>objects := objects one_task_session @ [stored_tasks one_task_session]\<rparr>"
  have g: "get_tasks_df one_task_session = Inr (1, ?s')"
    by (simp add: get_tasks_df_def one_task_session_facts)
       (simp add: one_task_session_def stored_tasks_def alloc_def)
  from T1 g
  have m: "\<forall>i col f y. df_at_put 1 i col f ?s' = Inr y \<longrightarrow> stored_tasks y = stored_tasks one_task_session"
    by simp
  let ?y = "?s'\<lparr>objects := (objects ?s')[1 := (objects ?s' ! 1)[0 := (objects ?s' ! 1 ! 0)\<lparr>title := Str ''changed''\<rparr>]]\<rparr>"
  have p: "df_at_put 1 0 title (\<lambda>r. r\<lparr>title := Str ''changed''\<rparr>) ?s' = Inr ?y"
    by (simp add: df_at_put_def holds_no_text_def one_task_session_def stored_tasks_def
          example_task_def)
  from m p have q: "stored_tasks ?y = stored_tasks one_task_session" by blast
  have o: "objects ?s' ! 1 = stored_tasks one_task_session"
    by (simp add: one_task_session_def)
  have n: "objects ?y ! 1 \<noteq> stored_tasks one_task_session"
    by (simp add: one_task_session_def stored_tasks_def example_task_def)
  from g o n p q have a: "\<exists>s'. get_tasks_df one_task_session = Inr (1, s')
          \<and> objects s' ! 1 = stored_tasks one_task_session
          \<and> (\<exists>y. df_at_put 1 0 title (\<lambda>r. r\<lparr>title := Str ''changed''\<rparr>) s' = Inr y
                 \<and> objects y ! 1 \<noteq> stored_tasks one_task_session
                 \<and> stored_tasks y = stored_tasks one_task_session)"
    by blast
  from T2 [OF one_task_session_threshold] one_task_session_threshold
  have b: "\<exists>thr s'. get_inactivity_threshold_days one_task_session = Inr (thr, s')
          \<and> stored_tasks s' = stored_tasks one_task_session" by blast
  from T4 [OF df3_derived_one] df3_derived_one
  have c: "\<exists>d s'. with_derived_metrics (\<lambda>k. noon) df3 one_task_session = Some (Inr (d, s'))
          \<and> stored_tasks s' = stored_tasks one_task_session" by blast
  have "\<exists>h. compute_health (\<lambda>k. noon) df3 one_task_session = Some (Inr (h, one_task_session))"
    by (simp add: compute_health_def df3_derived_one Let_def)
  with T5 have d: "\<exists>h s'. compute_health (\<lambda>k. noon) df3 one_task_session = Some (Inr (h, s'))
          \<and> stored_tasks s' = stored_tasks one_task_session" by blast
  have "\<exists>txt. daily_summary (\<lambda>k. noon) df3 one_task_session = Some (Inr (txt, one_task_session))"
    by (simp add: daily_summary_def df3_derived_one Let_def)
  with T6 have e: "\<exists>txt s'. daily_summary (\<lambda>k. noon) df3 one_task_session = Some (Inr (txt, s'))
          \<and> stored_tasks s' = stored_tasks one_task_session" by blast
  have "\<exists>s'. save_tasks_to_csv None ''data/tasks.csv'' one_task_session = Inr (True, s')"
    by (simp add: save_tasks_to_csv_def g)
  with T7 have f: "\<exists>ok s'. save_tasks_to_csv None ''data/tasks.csv'' one_task_session = Inr (ok, s')
          \<and> stored_tasks s' = stored_tasks one_task_session" by blast
  from h1 a b c d e f show ?thesis by blast
qed


subsection \<open>Reading back a written timestamp\<close>

declare decimal.simps [simp del]

lemma below_ten:
  "(k::nat) < 10 \<Longrightarrow> k = 0 \<or> k = 1 \<or> k = 2 \<or> k = 3 \<or> k = 4 \<or> k = 5 \<or> k = 6 \<or> k = 7 \<or> k = 8 \<or> k = 9"
  by arith

lemma digit_val_digit: "digit_val (digit n) = Some (n mod 10)"
proof -
  have "n mod 10 < 10" by simp
  from below_ten [OF this] show ?thesis
    by (auto simp: digit_def digit_val_def)
qed

lemma digit_val_zero: "digit_val (CHR ''0'') = Some 0"
  by (simp add: digit_val_def)

lemma decimal_nonempty: "decimal n \<noteq> []"
  by (subst decimal.simps) simp

lemma to_nat_acc_append:
  "to_nat_acc a (xs @ ys) = (case to_nat_acc a xs of None \<Rightarrow> None | Some b \<Rightarrow> to_nat_acc b ys)"
  by (induction xs arbitrary: a) (auto split: option.splits)

lemma to_nat_acc_decimal: "to_nat_acc a (decimal n) = Some (a * 10 ^ length (decimal n) + n)"
proof (induction n arbitrary: a rule: decimal.induct)
  case (1 n)
  show ?case
  proof (cases "n < 10")
    case True
    then show ?thesis
      by (subst (1 2) decimal.simps) (simp add: digit_val_digit)
  next
    case False
    have "to_nat_acc a (decimal n) = to_nat_acc a (decimal (n div 10) @ [digit (n mod 10)])"
      using False by (subst decimal.simps) simp
    also have "\<dots> = Some ((a * 10 ^ length (decimal (n div 10)) + n div 10) * 10 + n mod 10)"
      using "1.IH" [OF False] by (simp add: to_nat_acc_append digit_val_digit)
    also have "length (decimal n) = Suc (length (decimal (n div 10)))"
      using False by (subst decimal.simps) simp
    then have "(a * 10 ^ length (decimal (n div 10)) + n div 10) * 10 + n mod 10
               = a * 10 ^ length (decimal n) + n"
      by (simp add: algebra_simps)
    finally show ?thesis .
  qed
qed

lemma to_nat_acc_zeros: "to_nat_acc 0 (replicate k (CHR ''0'') @ xs) = to_nat_acc 0 xs"
  by (induction k) (simp_all add: digit_val_zero)

lemma to_nat_zpad: "to_nat (zpad w n) = Some n"
  by (simp add: to_nat_def zpad_def decimal_nonempty to_nat_acc_zeros to_nat_acc_decimal)

lemma length_decimal: "n < 10 ^ k \<Longrightarrow> 0 < k \<Longrightarrow> length (decimal n) \<le> k"
proof (induction n arbitrary: k rule: decimal.induct)
  case (1 n)
  show ?case
  proof (cases "n < 10")
    case True
    then show ?thesis using "1.prems" by (subst decimal.simps) simp
  next
    case False
    with "1.prems" obtain j where j: "k = Suc j" by (cases k) auto
    with False "1.prems" have "0 < j" by (cases j) auto
    moreover from "1.prems" j have "n div 10 < 10 ^ j"
      by (simp add: less_mult_imp_div_less mult.commute)
    ultimately have "length (decimal (n div 10)) \<le> j" using "1.IH" [OF False] by blast
    then show ?thesis using False j by (subst decimal.simps) simp
  qed
qed

lemma length_zpad: "n < 10 ^ w \<Longrightarrow> 0 < w \<Longrightarrow> length (zpad w n) = w"
  using length_decimal [of n w] by (simp add: zpad_def)

lemma parse_date_parts:
  assumes "length a = 4" and "length b = 2" and "length c = 2"
  shows "parse_isoformat_date (a @ CHR ''-'' # b @ CHR ''-'' # c)
         = (case (to_nat a, to_nat b, to_nat c) of
              (Some y, Some m, Some d) \<Rightarrow> Some (y, m, d) | _ \<Rightarrow> None)"
  using assms by (simp add: parse_isoformat_date_def nth_append)

lemma parse_time_parts:
  assumes "length a = 2" and "length b = 2" and "length c = 2"
  shows "parse_hh_mm_ss_ff (a @ CHR '':'' # b @ CHR '':'' # c)
         = (case (to_nat a, to_nat b, to_nat c) of
              (Some h, Some m, Some s) \<Rightarrow> Some (h, m, s, 0) | _ \<Rightarrow> None)"
  using assms by (simp add: parse_hh_mm_ss_ff_def nth_append Let_def split: option.splits)

lemma parse_time_parts_us:
  assumes "length a = 2" and "length b = 2" and "length c = 2" and "length f = 6"
  shows "parse_hh_mm_ss_ff (a @ CHR '':'' # b @ CHR '':'' # c @ CHR ''.'' # f)
         = (case (to_nat a, to_nat b, to_nat c, to_nat f) of
              (Some h, Some m, Some s, Some us) \<Rightarrow> Some (h, m, s, us) | _ \<Rightarrow> None)"
  using assms by (simp add: parse_hh_mm_ss_ff_def nth_append Let_def split: option.splits)

lemma days_in_month_le: "1 \<le> m \<Longrightarrow> m \<le> 12 \<Longrightarrow> days_in_month y m \<le> 31"
proof -
  assume "1 \<le> m" "m \<le> 12"
  then have "m = 1 \<or> m = 2 \<or> m = 3 \<or> m = 4 \<or> m = 5 \<or> m = 6 \<or> m = 7 \<or> m = 8 \<or> m = 9
             \<or> m = 10 \<or> m = 11 \<or> m = 12" by arith
  then show ?thesis by (auto simp: days_in_month_def DAYS_IN_MONTH_def)
qed

lemma split_at_separator:
  "length a = 10 \<Longrightarrow> take 10 (a @ [x] @ b) = a" "length a = 10 \<Longrightarrow> drop 11 (a @ [x] @ b) = b"
  "length a = 10 \<Longrightarrow> drop 10 (a @ [x] @ b) \<noteq> []"
  by simp_all

lemma parse_isoformat_isoformat:
  assumes "valid_datetime dt"
  shows "parse_isoformat (isoformat dt) = Some dt"
proof -
  let ?Y = "zpad 4 (year dt)" and ?M = "zpad 2 (month dt)" and ?D = "zpad 2 (day dt)"
  let ?h = "zpad 2 (hour dt)" and ?m = "zpad 2 (minute dt)" and ?s = "zpad 2 (second dt)"
  let ?f = "zpad 6 (microsecond dt)"
  from assms have r: "year dt < 10 ^ 4" "month dt < 10 ^ 2" "hour dt < 10 ^ 2" "minute dt < 10 ^ 2"
    "second dt < 10 ^ 2" "microsecond dt < 10 ^ 6"
    by (simp_all add: valid_datetime_def)
  from assms have "int (day dt) \<le> 31"
    using days_in_month_le [of "month dt" "year dt"] by (simp add: valid_datetime_def)
  then have rd: "day dt < 10 ^ 2" by simp
  have l: "length ?Y = 4" "length ?M = 2" "length ?D = 2" "length ?h = 2" "length ?m = 2"
    "length ?s = 2" "length ?f = 6"
    using r rd by (simp_all add: length_zpad)
  let ?date = "?Y @ ''-'' @ ?M @ ''-'' @ ?D"
  let ?rest = "(if microsecond dt \<noteq> 0 then ''.'' @ ?f else [])"
  let ?time = "?h @ '':'' @ ?m @ '':'' @ ?s @ ?rest"
  have iso: "isoformat dt = ?date @ [CHR ''T''] @ ?time" by (simp add: isoformat_def)
  have ld: "length ?date = 10" using l by simp
  have t10: "take 10 (isoformat dt) = ?date"
    using split_at_separator(1) [OF ld] by (simp only: iso)
  have d11: "drop 11 (isoformat dt) = ?time"
    using split_at_separator(2) [OF ld] by (simp only: iso)
  have pd: "parse_isoformat_date ?date = Some (year dt, month dt, day dt)"
    using parse_date_parts [OF l(1) l(2) l(3)] by (simp add: to_nat_zpad)
  have pt: "parse_hh_mm_ss_ff ?time = Some (hour dt, minute dt, second dt, microsecond dt)"
  proof (cases "microsecond dt = 0")
    case True
    then show ?thesis using parse_time_parts [OF l(4) l(5) l(6)] by (simp add: to_nat_zpad)
  next
    case False
    then show ?thesis using parse_time_parts_us [OF l(4) l(5) l(6) l(7)] by (simp add: to_nat_zpad)
  qed
  have ne: "drop 10 (isoformat dt) \<noteq> []"
    unfolding iso by (rule split_at_separator(3) [OF ld])
  have eta: "\<lparr>year = year dt, month = month dt, day = day dt, hour = hour dt, minute = minute dt,
               second = second dt, microsecond = microsecond dt\<rparr> = dt"
    by (cases dt) simp
  show ?thesis
    unfolding parse_isoformat_def t10 d11 pd using ne pt assms by (simp add: Let_def eta)
qed


lemma parse_isoformat_length: "parse_isoformat s = Some dt \<Longrightarrow> 10 \<le> length s"
  by (auto simp: parse_isoformat_def parse_isoformat_date_def split: option.splits if_splits)

lemma fromisoformat_parse: "parse_isoformat s = Some dt \<Longrightarrow> fromisoformat s = Some (Inr dt)"
  using parse_isoformat_length [of s dt] by (simp add: fromisoformat_def)

lemma fromisoformat_isoformat:
  "valid_datetime dt \<Longrightarrow> fromisoformat (isoformat dt) = Some (Inr dt)"
  by (rule fromisoformat_parse) (rule parse_isoformat_isoformat)

subsection \<open>The passes over the timestamp columns\<close>

lemma compute_days_cell:
  assumes "cell_datetime c = Some dt"
  shows "compute_task_age_days now c = Some (Inr (delta_days now dt))"
    and "compute_inactivity_days now c = Some (Inr (delta_days now dt))"
  using assms fromisoformat_parse [of _ dt]
  by (auto simp: compute_task_age_days_def compute_inactivity_days_def cell_datetime_def
        split: cell.splits)

lemma compute_days_Inr:
  "compute_task_age_days now c = Some (Inr v)
     \<Longrightarrow> \<exists>dt. cell_datetime c = Some dt \<and> v = delta_days now dt"
  "compute_inactivity_days now c = Some (Inr v)
     \<Longrightarrow> \<exists>dt. cell_datetime c = Some dt \<and> v = delta_days now dt"
  by (auto simp: compute_task_age_days_def compute_inactivity_days_def cell_datetime_def
        fromisoformat_def split: cell.splits option.splits sum.splits if_splits)

lemma series_apply_Inr:
  assumes "series_apply f clock k cs = Some (Inr vs)"
  shows "length vs = length cs
         \<and> (\<forall>j < length cs. f (clock (k + j)) (cs ! j) = Some (Inr (vs ! j)))"
  using assms
proof (induction cs arbitrary: k vs)
  case Nil
  then show ?case by simp
next
  case (Cons c cs)
  from Cons.prems obtain v ws where
    v: "f (clock k) c = Some (Inr v)" and ws: "series_apply f clock (Suc k) cs = Some (Inr ws)"
    and e: "vs = v # ws"
    by (auto split: sum.splits option.splits)
  from Cons.IH [OF ws] have l: "length ws = length cs"
    and a: "\<forall>j < length cs. f (clock (Suc k + j)) (cs ! j) = Some (Inr (ws ! j))" by simp_all
  have "\<forall>j < length (c # cs). f (clock (k + j)) ((c # cs) ! j) = Some (Inr (vs ! j))"
  proof (intro allI impI)
    fix j assume "j < length (c # cs)"
    then show "f (clock (k + j)) ((c # cs) ! j) = Some (Inr (vs ! j))"
      using v a e by (cases j) auto
  qed
  with l e show ?case by simp
qed

lemma series_apply_total:
  assumes "\<forall>c \<in> set cs. \<forall>now. \<exists>v. f now c = Some (Inr v)"
  shows "\<exists>vs. series_apply f clock k cs = Some (Inr vs)"
  using assms
proof (induction cs arbitrary: k)
  case Nil
  then show ?case by simp
next
  case (Cons c cs)
  from Cons.prems obtain v where v: "f (clock k) c = Some (Inr v)" by (metis list.set_intros(1))
  from Cons.prems have "\<forall>c \<in> set cs. \<forall>now. \<exists>v. f now c = Some (Inr v)" by simp
  from Cons.IH [OF this] obtain ws where "series_apply f clock (Suc k) cs = Some (Inr ws)" by blast
  with v show ?case by simp
qed

lemma with_derived_metrics_total:
  assumes "\<forall>t \<in> set df. cell_datetime (created_at t) \<noteq> None \<and> cell_datetime (last_updated_at t) \<noteq> None"
  shows "\<exists>d. with_derived_metrics clock df s
               = Some (Inr (d, if df = [] then s else init_session_state s))"
proof (cases "df = []")
  case True
  then show ?thesis by (simp add: with_derived_metrics_def)
next
  case False
  have "\<forall>c \<in> set (map created_at df). \<forall>now. \<exists>v. compute_task_age_days now c = Some (Inr v)"
    using assms by (auto simp: compute_days_cell)
  from series_apply_total [OF this] obtain ages where
    a: "series_apply compute_task_age_days clock 0 (map created_at df) = Some (Inr ages)" by blast
  have "\<forall>c \<in> set (map last_updated_at df). \<forall>now. \<exists>v. compute_inactivity_days now c = Some (Inr v)"
    using assms by (auto simp: compute_days_cell)
  from series_apply_total [OF this] obtain inact where
    i: "series_apply compute_inactivity_days clock (length df) (map last_updated_at df)
        = Some (Inr inact)"
    by blast
  from threshold_total [of s] obtain thr where
    t: "get_inactivity_threshold_days s = Inr (thr, init_session_state s)" by blast
  show ?thesis using False a i t by (simp add: with_derived_metrics_def)
qed

lemma with_derived_metrics_columns:
  assumes "with_derived_metrics clock df s = Some (Inr (d, s'))"
  shows "length d = length df" and "map owner d = map owner df" and "map status d = map status df"
proof -
  have "length d = length df \<and> map owner d = map owner df \<and> map status d = map status df"
  proof (cases "df = []")
    case True
    with assms show ?thesis by (simp add: with_derived_metrics_def)
  next
    case False
    from with_derived_metrics_rows [OF assms False] obtain thr ages inact where
      a: "series_apply compute_task_age_days clock 0 (map created_at df) = Some (Inr ages)"
      and i: "series_apply compute_inactivity_days clock (length df) (map last_updated_at df)
              = Some (Inr inact)"
      and d: "d = map2 (derive_row thr) df (zip ages inact)" by blast
    from series_apply_Inr [OF a] series_apply_Inr [OF i]
    have l: "length ages = length df" "length inact = length df" by simp_all
    then have lz: "length (zip ages inact) = length df" by simp
    have "\<And>g. (\<And>thr t ai. g (derive_row thr t ai) = g' t)
            \<Longrightarrow> map g (map2 (derive_row thr) df (zip ages inact)) = map g' df" for g'
      using lz by (auto simp: list_eq_iff_nth_eq)
    from this [of owner owner] this [of status status] lz d show ?thesis
      by (simp add: derive_row_sel)
  qed
  then show "length d = length df" and "map owner d = map owner df" and "map status d = map status df"
    by simp_all
qed

subsection \<open>The daily summary\<close>

lemma digit_no_newline: "digit n \<noteq> CHR 10"
proof -
  have "n mod 10 < 10" by simp
  from below_ten [OF this] show ?thesis by (auto simp: digit_def)
qed

lemma decimal_no_newline: "CHR 10 \<notin> set (decimal n)"
proof (induction n rule: decimal.induct)
  case (1 n)
  show ?case
  proof (cases "n < 10")
    case True
    then show ?thesis using digit_no_newline [of n] by (subst decimal.simps) auto
  next
    case False
    then show ?thesis
      using "1.IH" [OF False] digit_no_newline [of "n mod 10"] by (subst decimal.simps) auto
  qed
qed

lemma count_where_Nil: "count_where P [] = 0"
  by (simp add: count_where_def)

lemma no_stamps_load:
  "load_tasks_from_csv ''data/tasks.csv'' no_stamps_file_session = Some (True, no_stamps_session)"
proof -
  have u: "[0..<5] = [0, 1, 2, 3, 4]" by (simp add: upt_rec)
  have r: "read_csv no_stamps_file
           = Some (Inr \<lparr>columns = [''task_id'', ''title'', ''description'', ''owner'', ''status''],
                         rows = [[Str ''a'', Str ''t'', Str ''d'', Str ''bob'', Str ''Planned'']]\<rparr>)"
    by (simp add: read_csv_def no_stamps_file_def u maybe_typed_column_def
          present_fields_def na_values_def maybe_typed_def number_char_def infinity_char_def
          isspace_def read_field_def)
  have sel: "select_required
               \<lparr>columns = [''task_id'', ''title'', ''description'', ''owner'', ''status''],
                 rows = [[Str ''a'', Str ''t'', Str ''d'', Str ''bob'', Str ''Planned'']]\<rparr>
             = [no_stamps_task]"
    by (simp add: select_required_def column_cell_def no_stamps_task_def)
  show ?thesis
    by (simp add: load_tasks_from_csv_def no_stamps_file_session_def r sel alloc_def
          set_tasks_df_def no_stamps_session_def)
qed

lemma no_stamps_derived:
  "with_derived_metrics (\<lambda>k. noon) [no_stamps_task] s = Some (Inl ValueError)"
  by (simp add: with_derived_metrics_def no_stamps_task_def compute_task_age_days_def
        fromisoformat_def)

text \<open>
  C6, as stated, fails on tables that \<open>load_tasks_from_csv\<close> stores.  For a file without
  the timestamp columns the load fills them with the empty text, and \<open>daily_summary\<close> on
  the loaded table raises \<open>ValueError\<close>; for the file with the record \<open>a,t,d\<close> the
  timestamps are missing values, and it raises \<open>TypeError\<close>.  No text is returned.
\<close>

theorem daily_summary_raises_counterexample:
  "load_tasks_from_csv ''data/tasks.csv'' no_stamps_file_session = Some (True, no_stamps_session)
   \<and> stored_tasks no_stamps_session = [no_stamps_task]
   \<and> daily_summary (\<lambda>k. noon) (stored_tasks no_stamps_session) no_stamps_session
       = Some (Inl ValueError)
   \<and> load_tasks_from_csv ''data/tasks.csv'' short_record_file_session
       = Some (True, short_record_session)
   \<and> stored_tasks short_record_session = [short_record_task]
   \<and> daily_summary (\<lambda>k. noon) (stored_tasks short_record_session) short_record_session
       = Some (Inl TypeError)"
proof -
  have a: "stored_tasks no_stamps_session = [no_stamps_task]"
    by (simp add: stored_tasks_def no_stamps_session_def)
  have b: "daily_summary (\<lambda>k. noon) [no_stamps_task] no_stamps_session = Some (Inl ValueError)"
    by (simp add: daily_summary_def no_stamps_derived)
  have c: "daily_summary (\<lambda>k. noon) [short_record_task] short_record_session = Some (Inl TypeError)"
    by (simp add: daily_summary_def with_derived_metrics_def short_record_task_def
          compute_task_age_days_def)
  from no_stamps_load a b short_record_load short_record_session_facts(2) c show ?thesis
    by simp
qed

text \<open>
  C6, amended.  Whenever deriving the metrics does not raise, and so for every table
  whose timestamp cells are texts of the form that \<open>isoformat\<close> writes, \<open>daily_summary\<close>
  returns the four lines \<open>Total tasks: n\<close>, \<open>Blocked: b, At-Risk: a\<close>, \<open>Completed today: c\<close>
  and \<open>Owners active: o\<close>, joined by line feeds and with no line feed inside a line.  \<open>n\<close>
  is the number of tasks, \<open>b\<close> and \<open>a\<close> count the derived rows that are blocked and at
  risk, \<open>c\<close> counts the rows with status \<open>Completed\<close> and \<open>inactivity_days\<close> 0, and \<open>o\<close> is
  the number of distinct owners.  For the empty table all four numbers are 0.  When
  deriving the metrics raises, \<open>daily_summary\<close> raises the same exception.
\<close>

theorem daily_summary_format:
  "(\<forall>d s'. with_derived_metrics clock df s = Some (Inr (d, s')) \<longrightarrow>
       length d = length df \<and> map owner d = map owner df \<and> map status d = map status df
       \<and> daily_summary clock df s
           = Some (Inr (join [CHR 10]
                    [''Total tasks: '' @ decimal (length df),
                     ''Blocked: '' @ decimal (count_where is_blocked d)
                       @ '', At-Risk: '' @ decimal (count_where at_risk d),
                     ''Completed today: ''
                       @ decimal (count_where (\<lambda>r. status r = Str ''Completed''
                                                 \<and> inactivity_days r = 0) d),
                     ''Owners active: '' @ decimal (card (owner ` set df))], s'))
       \<and> CHR 10 \<notin> set (''Total tasks: '' @ decimal (length df))
       \<and> CHR 10 \<notin> set (''Blocked: '' @ decimal (count_where is_blocked d)
                           @ '', At-Risk: '' @ decimal (count_where at_risk d))
       \<and> CHR 10 \<notin> set (''Completed today: ''
                           @ decimal (count_where (\<lambda>r. status r = Str ''Completed''
                                                     \<and> inactivity_days r = 0) d))
       \<and> CHR 10 \<notin> set (''Owners active: '' @ decimal (card (owner ` set df))))
   \<and> ((\<forall>t \<in> set df. cell_datetime (created_at t) \<noteq> None
                       \<and> cell_datetime (last_updated_at t) \<noteq> None)
        \<longrightarrow> (\<exists>d s'. with_derived_metrics clock df s = Some (Inr (d, s'))))
   \<and> (df = [] \<longrightarrow>
        daily_summary clock df s
          = Some (Inr (join [CHR 10] [''Total tasks: 0'', ''Blocked: 0, At-Risk: 0'',
                                      ''Completed today: 0'', ''Owners active: 0''], s)))
   \<and> (\<forall>e. with_derived_metrics clock df s = Some (Inl e)
          \<longrightarrow> daily_summary clock df s = Some (Inl e))"
proof -
  have z: "decimal 0 = ''0''" by (simp add: decimal.simps digit_def)
  have n: "\<And>k. CHR 10 \<notin> set (decimal k)" by (rule decimal_no_newline)
  have A: "\<forall>d s'. with_derived_metrics clock df s = Some (Inr (d, s')) \<longrightarrow>
       length d = length df \<and> map owner d = map owner df \<and> map status d = map status df
       \<and> daily_summary clock df s
           = Some (Inr (join [CHR 10]
                    [''Total tasks: '' @ decimal (length df),
                     ''Blocked: '' @ decimal (count_where is_blocked d)
                       @ '', At-Risk: '' @ decimal (count_where at_risk d),
                     ''Completed today: ''
                       @ decimal (count_where (\<lambda>r. status r = Str ''Completed''
                                                 \<and> inactivity_days r = 0) d),
                     ''Owners active: '' @ decimal (card (owner ` set df))], s'))
       \<and> CHR 10 \<notin> set (''Total tasks: '' @ decimal (length df))
       \<and> CHR 10 \<notin> set (''Blocked: '' @ decimal (count_where is_blocked d)
                           @ '', At-Risk: '' @ decimal (count_where at_risk d))
       \<and> CHR 10 \<notin> set (''Completed today: ''
                           @ decimal (count_where (\<lambda>r. status r = Str ''Completed''
                                                     \<and> inactivity_days r = 0) d))
       \<and> CHR 10 \<notin> set (''Owners active: '' @ decimal (card (owner ` set df)))"
  proof (intro allI impI)
    fix d s' assume w: "with_derived_metrics clock df s = Some (Inr (d, s'))"
    note c = with_derived_metrics_columns [OF w]
    have o: "length (remdups (map owner d)) = card (owner ` set df)"
      using c(2) by (simp add: length_remdups_card_conv)
    have e: "d = [] \<longleftrightarrow> df = []" using c(1) by auto
    have f: "daily_summary clock df s
             = Some (Inr (join [CHR 10]
                    [''Total tasks: '' @ decimal (length df),
                     ''Blocked: '' @ decimal (count_where is_blocked d)
                       @ '', At-Risk: '' @ decimal (count_where at_risk d),
                     ''Completed today: ''
                       @ decimal (count_where (\<lambda>r. status r = Str ''Completed''
                                                 \<and> inactivity_days r = 0) d),
                     ''Owners active: '' @ decimal (card (owner ` set df))], s'))"
    proof (cases "df = []")
      case True
      with e have "d = []" by simp
      with True w show ?thesis by (simp add: daily_summary_def count_where_Nil)
    next
      case False
      with e have "d \<noteq> []" by simp
      with False w o c(1) show ?thesis by (simp add: daily_summary_def Let_def)
    qed
    have n1: "CHR 10 \<notin> set (''Total tasks: '' @ decimal (length df))" using n by simp
    have n2: "CHR 10 \<notin> set (''Blocked: '' @ decimal (count_where is_blocked d)
                               @ '', At-Risk: '' @ decimal (count_where at_risk d))"
      using n by simp
    have n3: "CHR 10 \<notin> set (''Completed today: ''
                               @ decimal (count_where (\<lambda>r. status r = Str ''Completed''
                                                         \<and> inactivity_days r = 0) d))"
      using n by simp
    have n4: "CHR 10 \<notin> set (''Owners active: '' @ decimal (card (owner ` set df)))"
      using n by simp
    from c f n1 n2 n3 n4
    show "length d = length df \<and> map owner d = map owner df \<and> map status d = map status df
       \<and> daily_summary clock df s
           = Some (Inr (join [CHR 10]
                    [''Total tasks: '' @ decimal (length df),
                     ''Blocked: '' @ decimal (count_where is_blocked d)
                       @ '', At-Risk: '' @ decimal (count_where at_risk d),
                     ''Completed today: ''
                       @ decimal (count_where (\<lambda>r. status r = Str ''Completed''
                                                 \<and> inactivity_days r = 0) d),
                     ''Owners active: '' @ decimal (card (owner ` set df))], s'))
       \<and> CHR 10 \<notin> set (''Total tasks: '' @ decimal (length df))
       \<and> CHR 10 \<notin> set (''Blocked: '' @ decimal (count_where is_blocked d)
                           @ '', At-Risk: '' @ decimal (count_where at_risk d))
       \<and> CHR 10 \<notin> set (''Completed today: ''
                           @ decimal (count_where (\<lambda>r. status r = Str ''Completed''
                                                     \<and> inactivity_days r = 0) d))
       \<and> CHR 10 \<notin> set (''Owners active: '' @ decimal (card (owner ` set df)))"
      by blast
  qed
  have B: "(\<forall>t \<in> set df. cell_datetime (created_at t) \<noteq> None
                       \<and> cell_datetime (last_updated_at t) \<noteq> None)
        \<longrightarrow> (\<exists>d s'. with_derived_metrics clock df s = Some (Inr (d, s')))"
    using with_derived_metrics_total [of df clock s] by blast
  have C: "df = [] \<longrightarrow>
        daily_summary clock df s
          = Some (Inr (join [CHR 10] [''Total tasks: 0'', ''Blocked: 0, At-Risk: 0'',
                                      ''Completed today: 0'', ''Owners active: 0''], s))"
    by (simp add: daily_summary_def with_derived_metrics_def count_where_Nil z)
  have D: "\<forall>e. with_derived_metrics clock df s = Some (Inl e)
          \<longrightarrow> daily_summary clock df s = Some (Inl e)"
    by (simp add: daily_summary_def)
  from A B C D show ?thesis by blast
qed

lemma df3_cells:
  "\<forall>t \<in> set df3. cell_datetime (created_at t) \<noteq> None \<and> cell_datetime (last_updated_at t) \<noteq> None"
  by (simp add: df3_def example_task_def cell_datetime_def parse_defs)

theorem daily_summary_format_witness:
  "list_all (\<lambda>t. cell_datetime (created_at t) \<noteq> None \<and> cell_datetime (last_updated_at t) \<noteq> None) df3
   \<and> daily_summary (\<lambda>k. noon) df3 new_session
       = Some (Inr (join [CHR 10] [''Total tasks: 3'', ''Blocked: 1, At-Risk: 1'',
                                   ''Completed today: 1'', ''Owners active: 2''],
                    init_session_state new_session))
   \<and> daily_summary (\<lambda>k. noon) [] new_session
       = Some (Inr (join [CHR 10] [''Total tasks: 0'', ''Blocked: 0, At-Risk: 0'',
                                   ''Completed today: 0'', ''Owners active: 0''], new_session))
   \<and> with_derived_metrics (\<lambda>k. noon) [no_stamps_task] no_stamps_session = Some (Inl ValueError)
   \<and> daily_summary (\<lambda>k. noon) [no_stamps_task] no_stamps_session = Some (Inl ValueError)"
proof -
  let ?d = "map2 (derive_row 3) df3 [(10, 3), (10, 2), (0, 0)]"
  note T = daily_summary_format [of "\<lambda>k. noon" df3 new_session]
  note T1 = T [THEN conjunct1, rule_format, OF df3_derived]
  note T2 = T [THEN conjunct2, THEN conjunct1, THEN mp, OF df3_cells]
  note E = daily_summary_format [of "\<lambda>k. noon" "[]" new_session, THEN conjunct2, THEN conjunct2,
             THEN conjunct1, rule_format, OF refl]
  note R = daily_summary_format [of "\<lambda>k. noon" "[no_stamps_task]" no_stamps_session,
             THEN conjunct2, THEN conjunct2, THEN conjunct2, rule_format, OF no_stamps_derived]
  from T1 T2
  have "daily_summary (\<lambda>k. noon) df3 new_session
        = Some (Inr (join [CHR 10]
                 [''Total tasks: '' @ decimal (length df3),
                  ''Blocked: '' @ decimal (count_where is_blocked ?d)
                    @ '', At-Risk: '' @ decimal (count_where at_risk ?d),
                  ''Completed today: ''
                    @ decimal (count_where (\<lambda>r. status r = Str ''Completed''
                                              \<and> inactivity_days r = 0) ?d),
                  ''Owners active: '' @ decimal (card (owner ` set df3))],
               init_session_state new_session))"
    by simp
  moreover have "length df3 = 3" by (simp add: df3_def)
  moreover have "count_where is_blocked ?d = 1"
    by (simp add: count_where_def df3_def example_task_def derive_row_def)
  moreover have "count_where at_risk ?d = 1"
    by (simp add: count_where_def df3_def example_task_def derive_row_def)
  moreover have "count_where (\<lambda>r. status r = Str ''Completed'' \<and> inactivity_days r = 0) ?d = 1"
    by (simp add: count_where_def df3_def example_task_def derive_row_def)
  moreover have "card (owner ` set df3) = 2"
    by (simp add: df3_def example_task_def card_insert_if)
  moreover have "decimal 1 = ''1''" "decimal 2 = ''2''" "decimal 3 = ''3''"
    by (simp_all add: decimal.simps digit_def)
  ultimately show ?thesis using df3_cells E R no_stamps_derived by (simp add: list_all_iff)
qed


subsection \<open>The clock readings of one derivation\<close>

text \<open>
  C1, as stated, fails: the two tasks below have the same \<open>created_at\<close>, and one call of
  \<open>with_derived_metrics\<close>, during which the clock passes noon, gives the first the age 0
  and the second the age 1.  No single \<open>now\<close> gives both.
\<close>

theorem single_now_counterexample:
  "created_at (twin_tasks ! 0) = created_at (twin_tasks ! 1)
   \<and> with_derived_metrics passing_clock twin_tasks new_session
       = Some (Inr ([\<lparr>task_id = Str ''a'', title = Str ''t'', description = Str ''d'', owner = Str ''ann'',
                 status = Str ''Planned'', created_at = Str ''2024-02-29T12:00:00'',
                 last_updated_at = Str ''2024-02-29T12:00:00'',
                 age_days = 0, inactivity_days = 1, at_risk = False, is_blocked = False,
                 is_long_running = False\<rparr>,
               \<lparr>task_id = Str ''b'', title = Str ''t'', description = Str ''d'', owner = Str ''bob'',
                 status = Str ''Planned'', created_at = Str ''2024-02-29T12:00:00'',
                 last_updated_at = Str ''2024-02-29T12:00:00'',
                 age_days = 1, inactivity_days = 1, at_risk = False, is_blocked = False,
                 is_long_running = False\<rparr>],
              init_session_state new_session))"
proof -
  have p: "fromisoformat ''2024-02-29T12:00:00''
           = Some (Inr \<lparr>year = 2024, month = 2, day = 29, hour = 12, minute = 0, second = 0,
                         microsecond = 0\<rparr>)"
    by (simp add: parse_defs)
  have a: "compute_task_age_days before_noon (Str ''2024-02-29T12:00:00'') = Some (Inr 0)"
    "compute_task_age_days noon (Str ''2024-02-29T12:00:00'') = Some (Inr 1)"
    "compute_inactivity_days noon (Str ''2024-02-29T12:00:00'') = Some (Inr 1)"
    by (simp_all add: compute_task_age_days_def compute_inactivity_days_def p delta_defs noon_def
          before_noon_def)
  show ?thesis
    by (simp add: with_derived_metrics_def twin_tasks_def example_task_def passing_clock_def a
          new_session_threshold derive_row_def)
qed

text \<open>
  C1, amended.  One call of \<open>with_derived_metrics\<close> on a non-empty collection derives all
  tasks with one threshold, read once.  The time is read once for every value: the age
  of the \<open>j\<close>-th task comes from the \<open>j\<close>-th reading of the clock, its inactivity from
  reading number \<open>length df + j\<close>.  When all these readings are the same \<open>now\<close>, every
  task is derived relative to that \<open>now\<close>.
\<close>

theorem derived_metrics_clock_readings:
  assumes "with_derived_metrics clock df s = Some (Inr (d, s'))" and "df \<noteq> []"
  shows "\<exists>thr. get_inactivity_threshold_days s = Inr (thr, s') \<and> length d = length df
           \<and> (\<forall>j < length df. \<exists>c u.
                  cell_datetime (created_at (df ! j)) = Some c
                  \<and> cell_datetime (last_updated_at (df ! j)) = Some u
                  \<and> age_days (d ! j) = delta_days (clock j) c
                  \<and> inactivity_days (d ! j) = delta_days (clock (length df + j)) u
                  \<and> at_risk (d ! j) = (thr \<le> inactivity_days (d ! j))
                  \<and> is_long_running (d ! j)
                      = (status (df ! j) \<noteq> Str ''Completed'' \<and> thr * 2 \<le> age_days (d ! j))
                  \<and> ((\<forall>k < 2 * length df. clock k = now)
                       \<longrightarrow> age_days (d ! j) = delta_days now c
                           \<and> inactivity_days (d ! j) = delta_days now u))"
proof -
  from with_derived_metrics_rows [OF assms] obtain thr ages inact where
    t: "get_inactivity_threshold_days s = Inr (thr, s')"
    and a: "series_apply compute_task_age_days clock 0 (map created_at df) = Some (Inr ages)"
    and i: "series_apply compute_inactivity_days clock (length df) (map last_updated_at df)
            = Some (Inr inact)"
    and d: "d = map2 (derive_row thr) df (zip ages inact)" by blast
  from series_apply_Inr [OF a]
  have la: "length ages = length df"
    and va: "\<forall>j < length df. compute_task_age_days (clock j) (created_at (df ! j))
                              = Some (Inr (ages ! j))"
    by simp_all
  from series_apply_Inr [OF i]
  have li: "length inact = length df"
    and vi: "\<forall>j < length df. compute_inactivity_days (clock (length df + j)) (last_updated_at (df ! j))
                              = Some (Inr (inact ! j))"
    by simp_all
  have ld: "length d = length df" using d la li by simp
  have "\<forall>j < length df. \<exists>c u.
                  cell_datetime (created_at (df ! j)) = Some c
                  \<and> cell_datetime (last_updated_at (df ! j)) = Some u
                  \<and> age_days (d ! j) = delta_days (clock j) c
                  \<and> inactivity_days (d ! j) = delta_days (clock (length df + j)) u
                  \<and> at_risk (d ! j) = (thr \<le> inactivity_days (d ! j))
                  \<and> is_long_running (d ! j)
                      = (status (df ! j) \<noteq> Str ''Completed'' \<and> thr * 2 \<le> age_days (d ! j))
                  \<and> ((\<forall>k < 2 * length df. clock k = now)
                       \<longrightarrow> age_days (d ! j) = delta_days now c
                           \<and> inactivity_days (d ! j) = delta_days now u)"
  proof (intro allI impI)
    fix j assume j: "j < length df"
    from va j obtain c where c: "cell_datetime (created_at (df ! j)) = Some c"
      and ac: "ages ! j = delta_days (clock j) c"
      using compute_days_Inr(1) by blast
    from vi j obtain u where u: "cell_datetime (last_updated_at (df ! j)) = Some u"
      and iu: "inact ! j = delta_days (clock (length df + j)) u"
      using compute_days_Inr(2) by blast
    have r: "d ! j = derive_row thr (df ! j) (ages ! j, inact ! j)"
      using d j la li by simp
    have k: "(\<forall>k < 2 * length df. clock k = now)
             \<longrightarrow> clock j = now \<and> clock (length df + j) = now"
      using j by auto
    show "\<exists>c u.
                  cell_datetime (created_at (df ! j)) = Some c
                  \<and> cell_datetime (last_updated_at (df ! j)) = Some u
                  \<and> age_days (d ! j) = delta_days (clock j) c
                  \<and> inactivity_days (d ! j) = delta_days (clock (length df + j)) u
                  \<and> at_risk (d ! j) = (thr \<le> inactivity_days (d ! j))
                  \<and> is_long_running (d ! j)
                      = (status (df ! j) \<noteq> Str ''Completed'' \<and> thr * 2 \<le> age_days (d ! j))
                  \<and> ((\<forall>k < 2 * length df. clock k = now)
                       \<longrightarrow> age_days (d ! j) = delta_days now c
                           \<and> inactivity_days (d ! j) = delta_days now u)"
      using c u ac iu k by (simp add: r derive_row_sel)
  qed
  with t ld show ?thesis by blast
qed

lemma twin_tasks_steady:
  "with_derived_metrics steady_clock twin_tasks new_session
   = Some (Inr (map2 (derive_row 3) twin_tasks [(1, 1), (1, 1)], init_session_state new_session))"
proof -
  have p: "fromisoformat ''2024-02-29T12:00:00''
           = Some (Inr \<lparr>year = 2024, month = 2, day = 29, hour = 12, minute = 0, second = 0,
                         microsecond = 0\<rparr>)"
    by (simp add: parse_defs)
  have a: "compute_task_age_days noon (Str ''2024-02-29T12:00:00'') = Some (Inr 1)"
    "compute_inactivity_days noon (Str ''2024-02-29T12:00:00'') = Some (Inr 1)"
    by (simp_all add: compute_task_age_days_def compute_inactivity_days_def p delta_defs noon_def)
  show ?thesis
    by (simp add: with_derived_metrics_def twin_tasks_def example_task_def steady_clock_def a
          new_session_threshold)
qed

theorem derived_metrics_clock_readings_witness:
  "with_derived_metrics steady_clock twin_tasks new_session
     = Some (Inr (map2 (derive_row 3) twin_tasks [(1, 1), (1, 1)],
                  init_session_state new_session))
   \<and> twin_tasks \<noteq> []
   \<and> steady_clock 0 = noon \<and> steady_clock 1 = noon \<and> steady_clock 2 = noon \<and> steady_clock 3 = noon
   \<and> age_days (map2 (derive_row 3) twin_tasks [(1, 1), (1, 1)] ! 0)
       = delta_days noon \<lparr>year = 2024, month = 2, day = 29, hour = 12, minute = 0, second = 0,
                           microsecond = 0\<rparr>
   \<and> inactivity_days (map2 (derive_row 3) twin_tasks [(1, 1), (1, 1)] ! 0)
       = delta_days noon \<lparr>year = 2024, month = 2, day = 29, hour = 12, minute = 0, second = 0,
                           microsecond = 0\<rparr>
   \<and> age_days (map2 (derive_row 3) twin_tasks [(1, 1), (1, 1)] ! 1)
       = delta_days noon \<lparr>year = 2024, month = 2, day = 29, hour = 12, minute = 0, second = 0,
                           microsecond = 0\<rparr>
   \<and> inactivity_days (map2 (derive_row 3) twin_tasks [(1, 1), (1, 1)] ! 1)
       = delta_days noon \<lparr>year = 2024, month = 2, day = 29, hour = 12, minute = 0, second = 0,
                           microsecond = 0\<rparr>"
proof -
  let ?P = "\<lparr>year = 2024, month = 2, day = 29, hour = 12, minute = 0, second = 0, microsecond = 0\<rparr>"
  let ?D = "map2 (derive_row 3) twin_tasks [(1, 1), (1, 1)]"
  have ne: "twin_tasks \<noteq> []" by (simp add: twin_tasks_def)
  have l: "length twin_tasks = 2" by (simp add: twin_tasks_def)
  have st: "\<forall>k < 2 * length twin_tasks. steady_clock k = noon" by (simp add: steady_clock_def)
  have cd: "\<forall>j < length twin_tasks. cell_datetime (created_at (twin_tasks ! j)) = Some ?P
              \<and> cell_datetime (last_updated_at (twin_tasks ! j)) = Some ?P"
    by (simp add: twin_tasks_def example_task_def cell_datetime_def parse_defs nth_Cons
          split: nat.splits)
  from derived_metrics_clock_readings [OF twin_tasks_steady ne, of noon] st
  have "\<forall>j < length twin_tasks. \<exists>c u.
          cell_datetime (created_at (twin_tasks ! j)) = Some c
          \<and> cell_datetime (last_updated_at (twin_tasks ! j)) = Some u
          \<and> age_days (?D ! j) = delta_days noon c
          \<and> inactivity_days (?D ! j) = delta_days noon u"
    by (elim exE conjE) (intro allI impI, blast)
  with cd have F: "\<forall>j < length twin_tasks.
          age_days (?D ! j) = delta_days noon ?P \<and> inactivity_days (?D ! j) = delta_days noon ?P"
    by fastforce
  have j0: "0 < length twin_tasks" and j1: "1 < length twin_tasks" using l by simp_all
  from F [rule_format, OF j0] F [rule_format, OF j1]
  have "age_days (?D ! 0) = delta_days noon ?P \<and> inactivity_days (?D ! 0) = delta_days noon ?P
             \<and> age_days (?D ! 1) = delta_days noon ?P \<and> inactivity_days (?D ! 1) = delta_days noon ?P"
    by blast
  moreover have "steady_clock 0 = noon \<and> steady_clock 1 = noon \<and> steady_clock 2 = noon
                 \<and> steady_clock 3 = noon"
    by (simp add: steady_clock_def)
  ultimately show ?thesis using twin_tasks_steady ne by blast
qed


subsection \<open>The invariants of the table\<close>































subsection \<open>Saving and loading\<close>

text \<open>
  C7.  A task created with the empty description is saved and loaded again: the file
  holds the empty field for the description, \<open>read_csv\<close> reads the empty field as a
  missing value, and the table after the load has \<open>nan\<close> where it had the empty text.
\<close>

theorem csv_round_trip_blank_description:
  "\<exists>s1 s2 s3.
     create_task noon ''u1'' ''t'' (Some '''') ''o'' ''Planned'' new_session
       = Inr (Some blank_description_task, s1)
     \<and> stored_tasks s1 = [blank_description_task]
     \<and> save_tasks_to_csv None ''data/tasks.csv'' s1 = Inr (True, s2)
     \<and> load_tasks_from_csv ''data/tasks.csv'' s2 = Some (True, s3)
     \<and> stored_tasks s3 = [blank_description_task\<lparr>description := NaN\<rparr>]
     \<and> stored_tasks s3 \<noteq> stored_tasks s1"
proof -
  let ?T = "blank_description_task"
  let ?s1 = "\<lparr>objects = [[], [], [?T]], tasks_df = Some 2, inactivity_threshold_days = Some 3,
              files = [], shown = []\<rparr>"
  let ?file = "\<lparr>header = required_cols,
                records = [[''u1'', ''t'', '''', ''o'', ''Planned'', ''2024-03-01T12:00:00'',
                            ''2024-03-01T12:00:00'']]\<rparr>"
  let ?s2 = "\<lparr>objects = [[], [], [?T], [?T]], tasks_df = Some 2, inactivity_threshold_days = Some 3,
              files = [(''data/tasks.csv'', ?file)], shown = []\<rparr>"
  let ?s3 = "\<lparr>objects = [[], [], [?T], [?T], [?T\<lparr>description := NaN\<rparr>]], tasks_df = Some 4,
              inactivity_threshold_days = Some 3,
              files = [(''data/tasks.csv'', ?file)], shown = []\<rparr>"
  have v: "validate_task_fields ''t'' ''o'' ''Planned'' (Some '''') = []"
    by (simp add: validate_task_fields_def strip_examples VALID_STATUSES_def)
  note i = init_new_session and ii = init_initialised
  have c: "create_task noon ''u1'' ''t'' (Some '''') ''o'' ''Planned'' new_session
           = Inr (Some ?T, ?s1)"
    by (simp add: create_task_def v i ii Let_def get_tasks_df_def alloc_def
          set_tasks_df_def isoformat_noon strip_examples blank_description_task_def)
  have st1: "stored_tasks ?s1 = [?T]" by (simp add: stored_tasks_def)
  have csv: "to_csv [?T] = ?file"
    by (simp add: to_csv_def blank_description_task_def field_text_def)
  have sv: "save_tasks_to_csv None ''data/tasks.csv'' ?s1 = Inr (True, ?s2)"
    by (simp add: save_tasks_to_csv_def get_tasks_df_def ii Let_def alloc_def csv)
  have u: "[0..<7] = [0, 1, 2, 3, 4, 5, 6]" by (simp add: upt_rec)
  have rd: "read_csv ?file
            = Some (Inr \<lparr>columns = required_cols,
                   rows = [[Str ''u1'', Str ''t'', NaN, Str ''o'', Str ''Planned'',
                            Str ''2024-03-01T12:00:00'', Str ''2024-03-01T12:00:00'']]\<rparr>)"
    by (simp add: read_csv_def required_cols_def u maybe_typed_column_def present_fields_def
          na_values_def maybe_typed_def number_char_def infinity_char_def isspace_def
          read_field_def)
  have sel: "select_required \<lparr>columns = required_cols,
                   rows = [[Str ''u1'', Str ''t'', NaN, Str ''o'', Str ''Planned'',
                            Str ''2024-03-01T12:00:00'', Str ''2024-03-01T12:00:00'']]\<rparr>
             = [?T\<lparr>description := NaN\<rparr>]"
    by (simp add: select_required_def column_cell_def required_cols_def blank_description_task_def)
  have ld: "load_tasks_from_csv ''data/tasks.csv'' ?s2 = Some (True, ?s3)"
    by (simp add: load_tasks_from_csv_def rd sel alloc_def set_tasks_df_def)
  have st3: "stored_tasks ?s3 = [?T\<lparr>description := NaN\<rparr>]" by (simp add: stored_tasks_def)
  have ne: "stored_tasks ?s3 \<noteq> stored_tasks ?s1"
    unfolding st1 st3 by (simp add: blank_description_task_def)
  from c st1 sv ld st3 ne show ?thesis by blast
qed

end
